theory Spec2Isabelle
  imports Complex_Main "HOL-Library.Finite_Map"
begin

section \<open>Dev Quests: the progression engine of \<^verbatim>\<open>app.js\<close>\<close>

text \<open>
  The theory embeds the state manager \<^verbatim>\<open>AppState\<close> of \<^verbatim>\<open>src/app.js\<close> together with the
  constants and utilities it uses. JavaScript numbers that the engine handles are integers
  (quest counts, experience points, goal targets), so they are modelled as \<^typ>\<open>int\<close>; the
  one place where the source leaves the integers, \<^verbatim>\<open>Math.sqrt(xp / BASE_XP)\<close>, is modelled by an
  integer square root that is proved equal to the real-valued expression. Objects used as
  dictionaries (\<^verbatim>\<open>dailies\<close>, \<^verbatim>\<open>history\<close>) are finite maps. The clock (\<^verbatim>\<open>new Date()\<close>,
  \<^verbatim>\<open>getTodayString()\<close>, \<^verbatim>\<open>Date.now()\<close>) is an explicit argument of every operation that reads
  it. Persistence (\<^verbatim>\<open>save\<close>) and the listener bus (\<^verbatim>\<open>notify\<close>) do not change the snapshot and
  are left out; the pop-ups scheduled with \<^verbatim>\<open>setTimeout\<close> are returned as a list.
\<close>

subsection \<open>Decimal strings\<close>

text \<open>
  \<^verbatim>\<open>String(n)\<close> for an integer, and \<^verbatim>\<open>s.padStart(2, '0')\<close>.
\<close>

definition digit_char :: "nat \<Rightarrow> char" where
  "digit_char n = ''0123456789'' ! n"

fun String_nat :: "nat \<Rightarrow> string" where
  "String_nat n =
     (if n < 10 then [digit_char n] else String_nat (n div 10) @ [digit_char (n mod 10)])"

declare String_nat.simps [simp del]

definition String_int :: "int \<Rightarrow> string" where
  "String_int i = (if i < 0 then CHR ''-'' # String_nat (nat (- i)) else String_nat (nat i))"

definition padStart2 :: "string \<Rightarrow> string" where
  "padStart2 s = replicate (2 - length s) CHR ''0'' @ s"

subsection \<open>Calendar dates\<close>

text \<open>
  A \<^verbatim>\<open>Date\<close> object, as far as the engine looks at it: the local calendar fields
  \<^verbatim>\<open>getFullYear()\<close>, \<^verbatim>\<open>getMonth()\<close> (0 to 11) and \<^verbatim>\<open>getDate()\<close> (1 to 31).
  \<open>dateString\<close> is the template literal that \<^verbatim>\<open>getTodayString\<close>, \<^verbatim>\<open>updateStreak\<close> and
  \<^verbatim>\<open>renderStatsView\<close> all use; \<open>prevDay\<close> is the effect of \<^verbatim>\<open>d.setDate(d.getDate() - 1)\<close>
  in the proleptic Gregorian calendar of the language.
\<close>

record date =
  getFullYear :: int
  getMonth :: nat
  getDate :: nat

definition dateString :: "date \<Rightarrow> string" where
  "dateString d =
     String_int (getFullYear d) @ ''-'' @ padStart2 (String_nat (getMonth d + 1)) @ ''-'' @
     padStart2 (String_nat (getDate d))"

definition leapYear :: "int \<Rightarrow> bool" where
  "leapYear y = (y mod 4 = 0 \<and> (y mod 100 \<noteq> 0 \<or> y mod 400 = 0))"

definition daysInMonth :: "int \<Rightarrow> nat \<Rightarrow> nat" where
  "daysInMonth y m =
     (if m = 1 then (if leapYear y then 29 else 28)
      else if m = 3 \<or> m = 5 \<or> m = 8 \<or> m = 10 then 30 else 31)"

definition prevDay :: "date \<Rightarrow> date" where
  "prevDay d =
     (if 1 < getDate d then d\<lparr>getDate := getDate d - 1\<rparr>
      else if 0 < getMonth d then
        d\<lparr>getMonth := getMonth d - 1, getDate := daysInMonth (getFullYear d) (getMonth d - 1)\<rparr>
      else \<lparr>getFullYear = getFullYear d - 1, getMonth = 11, getDate = 31\<rparr>)"

text \<open>The calendar order, used to measure the streak loop.\<close>

definition date_less :: "date \<Rightarrow> date \<Rightarrow> bool" where
  "date_less a b =
     (getFullYear a < getFullYear b \<or>
      getFullYear a = getFullYear b \<and>
        (getMonth a < getMonth b \<or> getMonth a = getMonth b \<and> getDate a < getDate b))"

subsection \<open>Progression math\<close>

text \<open>
  \<^verbatim>\<open>const calculateLevel = (xp) => Math.floor(Math.sqrt(xp / BASE_XP)) + 1;\<close>
  \<^verbatim>\<open>const xpForNextLevel = (level) => Math.pow(level, 2) * BASE_XP;\<close>

  \<open>floor_sqrt\<close> is \<^verbatim>\<open>Math.floor(Math.sqrt(n))\<close> on a natural number, and the floor of the square
  root of a quotient is the integer square root of the integer quotient (lemma
  \<open>floor_sqrt_real\<close> below). The square root of a negative number is \<^verbatim>\<open>NaN\<close>, which is the
  value \<open>None\<close>; \<open>NaN_ge\<close> and \<open>NaN_gt\<close> are \<^verbatim>\<open>>=\<close> and \<^verbatim>\<open>>\<close>, false on \<^verbatim>\<open>NaN\<close>.
\<close>

definition BASE_XP :: int where
  "BASE_XP = 100"

fun floor_sqrt :: "nat \<Rightarrow> nat" where
  "floor_sqrt 0 = 0"
| "floor_sqrt (Suc n) =
     (let r = floor_sqrt n in if (r + 1) * (r + 1) \<le> Suc n then r + 1 else r)"

definition calculateLevel :: "int \<Rightarrow> int option" where
  "calculateLevel xp =
     (if xp < 0 then None else Some (int (floor_sqrt (nat (xp div BASE_XP))) + 1))"

definition xpForNextLevel :: "int \<Rightarrow> int" where
  "xpForNextLevel level = level ^ 2 * BASE_XP"

definition NaN_ge :: "int option \<Rightarrow> int \<Rightarrow> bool" where
  "NaN_ge a b = (case a of None \<Rightarrow> False | Some x \<Rightarrow> b \<le> x)"

definition NaN_gt :: "int option \<Rightarrow> int option \<Rightarrow> bool" where
  "NaN_gt a b =
     (case a of None \<Rightarrow> False | Some x \<Rightarrow> (case b of None \<Rightarrow> False | Some y \<Rightarrow> y < x))"

subsection \<open>Data model\<close>

text \<open>
  The state snapshot of \<^verbatim>\<open>getDefaultState\<close>, goals as \<^verbatim>\<open>addGoal\<close> builds them and quests as
  the templates and \<^verbatim>\<open>addCustomQuest\<close> build them. A template of type \<^verbatim>\<open>boolean\<close> has no
  \<^verbatim>\<open>max\<close> property, hence the option.
\<close>

record goal =
  goal_id :: string
  goal_title :: string
  target :: int
  current :: int

record quest =
  quest_id :: string
  quest_title :: string
  quest_type :: string
  quest_max :: "int option"
  xpPer :: int
  icon :: string
  desc :: string
  custom :: bool

record state =
  xp :: int
  totalCompleted :: int
  goalsCompleted :: int
  lastDate :: string
  dailies :: "(string, int) fmap"
  goals :: "goal list"
  customQuests :: "quest list"
  history :: "(string, int) fmap"
  unlockedAchievements :: "string list"
  currentStreak :: int

definition getDefaultState :: state where
  "getDefaultState =
     \<lparr>xp = 0, totalCompleted = 0, goalsCompleted = 0, lastDate = '''', dailies = fmempty,
      goals = [], customQuests = [], history = fmempty, unlockedAchievements = [],
      currentStreak = 0\<rparr>"

text \<open>
  What \<^verbatim>\<open>loadData\<close> returns when something was stored: an object that may hold any of the
  keys. \<open>mergeSaved\<close> is the spread \<^verbatim>\<open>{ ...this.getDefaultState(), ...savedState }\<close>.
\<close>

record savedState =
  saved_xp :: "int option"
  saved_totalCompleted :: "int option"
  saved_goalsCompleted :: "int option"
  saved_lastDate :: "string option"
  saved_dailies :: "(string, int) fmap option"
  saved_goals :: "goal list option"
  saved_customQuests :: "quest list option"
  saved_history :: "(string, int) fmap option"
  saved_unlockedAchievements :: "string list option"
  saved_currentStreak :: "int option"

definition mergeSaved :: "state \<Rightarrow> savedState \<Rightarrow> state" where
  "mergeSaved d sv =
     \<lparr>xp = (case saved_xp sv of None \<Rightarrow> xp d | Some v \<Rightarrow> v),
      totalCompleted = (case saved_totalCompleted sv of None \<Rightarrow> totalCompleted d | Some v \<Rightarrow> v),
      goalsCompleted = (case saved_goalsCompleted sv of None \<Rightarrow> goalsCompleted d | Some v \<Rightarrow> v),
      lastDate = (case saved_lastDate sv of None \<Rightarrow> lastDate d | Some v \<Rightarrow> v),
      dailies = (case saved_dailies sv of None \<Rightarrow> dailies d | Some v \<Rightarrow> v),
      goals = (case saved_goals sv of None \<Rightarrow> goals d | Some v \<Rightarrow> v),
      customQuests = (case saved_customQuests sv of None \<Rightarrow> customQuests d | Some v \<Rightarrow> v),
      history = (case saved_history sv of None \<Rightarrow> history d | Some v \<Rightarrow> v),
      unlockedAchievements =
        (case saved_unlockedAchievements sv of None \<Rightarrow> unlockedAchievements d | Some v \<Rightarrow> v),
      currentStreak = (case saved_currentStreak sv of None \<Rightarrow> currentStreak d | Some v \<Rightarrow> v)\<rparr>"

text \<open>
  The dynamically typed argument \<^verbatim>\<open>change\<close> of \<^verbatim>\<open>updateDailyProgress\<close>: the quest cards pass
  a boolean for a \<^verbatim>\<open>boolean\<close> quest and a number for a counter. \<open>truthy\<close> is its value as a
  condition, \<open>toNumber\<close> its value as an operand of \<^verbatim>\<open>+\<close>.
\<close>

datatype jsvalue = JBool bool | JNum int

fun truthy :: "jsvalue \<Rightarrow> bool" where
  "truthy (JBool b) = b"
| "truthy (JNum n) = (n \<noteq> 0)"

fun toNumber :: "jsvalue \<Rightarrow> int" where
  "toNumber (JBool b) = (if b then 1 else 0)"
| "toNumber (JNum n) = n"

text \<open>
  \<^verbatim>\<open>obj[key] || 0\<close> on a dictionary of integers: a missing key and a stored 0 both read 0.
\<close>

definition lookupOr0 :: "(string, int) fmap \<Rightarrow> string \<Rightarrow> int" where
  "lookupOr0 m k = (case fmlookup m k of None \<Rightarrow> 0 | Some v \<Rightarrow> v)"

text \<open>
  The pop-ups the engine schedules: \<^verbatim>\<open>setTimeout(() => showLevelUpNotification(newLevel), 300)\<close>
  and \<^verbatim>\<open>setTimeout(() => showAchievementNotification(text), delay)\<close>, as the pair of the delay
  and the call.
\<close>

datatype notification = LevelUpNotification "int option" | AchievementNotification string

type_synonym timer = "nat \<times> notification"

subsection \<open>Quest templates and achievement definitions\<close>

definition DAILY_QUESTS_TEMPLATE :: "quest list" where
  "DAILY_QUESTS_TEMPLATE =
     [\<lparr>quest_id = ''leetcode'', quest_title = ''Solve LeetCode Problems'', quest_type = ''counter'',
       quest_max = Some 5, xpPer = 15, icon = ''code'',
       desc = ''Keep those algorithms sharp. 1-5 questions.'', custom = False\<rparr>,
      \<lparr>quest_id = ''commit'', quest_title = ''Make a GitHub Commit'', quest_type = ''boolean'',
       quest_max = None, xpPer = 25, icon = ''git-commit'',
       desc = ''Push some code to keep the streak alive.'', custom = False\<rparr>,
      \<lparr>quest_id = ''article'', quest_title = ''Read Tech Docs/Article'', quest_type = ''boolean'',
       quest_max = None, xpPer = 20, icon = ''book-open'',
       desc = ''Learn something new today.'', custom = False\<rparr>]"

definition PITCH_QUEST :: quest where
  "PITCH_QUEST =
     \<lparr>quest_id = ''pitch'', quest_title = ''Pitch a Local Business'', quest_type = ''boolean'',
      quest_max = None, xpPer = 50, icon = ''briefcase'',
      desc = ''Reach out and offer to build a website.'', custom = False\<rparr>"

record achievement =
  ach_id :: string
  ach_name :: string
  ach_desc :: string
  condition :: "state \<Rightarrow> bool"

definition ACHIEVEMENTS :: "achievement list" where
  "ACHIEVEMENTS =
     [\<lparr>ach_id = ''first_quest'', ach_name = ''Getting Started'',
       ach_desc = ''Complete your first quest'', condition = (\<lambda>s. 1 \<le> totalCompleted s)\<rparr>,
      \<lparr>ach_id = ''level_5'', ach_name = ''Rising Developer'',
       ach_desc = ''Reach level 5'', condition = (\<lambda>s. NaN_ge (calculateLevel (xp s)) 5)\<rparr>,
      \<lparr>ach_id = ''level_10'', ach_name = ''Expert Coder'',
       ach_desc = ''Reach level 10'', condition = (\<lambda>s. NaN_ge (calculateLevel (xp s)) 10)\<rparr>,
      \<lparr>ach_id = ''streak_7'', ach_name = ''Week Warrior'',
       ach_desc = ''7 day streak'', condition = (\<lambda>s. 7 \<le> currentStreak s)\<rparr>,
      \<lparr>ach_id = ''streak_30'', ach_name = ''Monthly Master'',
       ach_desc = ''30 day streak'', condition = (\<lambda>s. 30 \<le> currentStreak s)\<rparr>,
      \<lparr>ach_id = ''complete_10'', ach_name = ''Quest Hunter'',
       ach_desc = ''Complete 10 quests'', condition = (\<lambda>s. 10 \<le> totalCompleted s)\<rparr>,
      \<lparr>ach_id = ''complete_50'', ach_name = ''Quest Veteran'',
       ach_desc = ''Complete 50 quests'', condition = (\<lambda>s. 50 \<le> totalCompleted s)\<rparr>,
      \<lparr>ach_id = ''complete_100'', ach_name = ''Quest Master'',
       ach_desc = ''Complete 100 quests'', condition = (\<lambda>s. 100 \<le> totalCompleted s)\<rparr>,
      \<lparr>ach_id = ''first_goal'', ach_name = ''Goal Setter'',
       ach_desc = ''Complete your first long-term goal'',
       condition = (\<lambda>s. 1 \<le> goalsCompleted s)\<rparr>,
      \<lparr>ach_id = ''custom_quest'', ach_name = ''Self Driven'',
       ach_desc = ''Create a custom quest'', condition = (\<lambda>s. 0 < length (customQuests s))\<rparr>]"

subsection \<open>Date strings identify dates\<close>

text \<open>
  Two dates with the same \<^verbatim>\<open>YYYY-MM-DD\<close> string are the same date: the string is cut at its
  last two dashes, and a decimal numeral determines its number.
\<close>

lemma digit_char_inj: "m < 10 \<Longrightarrow> n < 10 \<Longrightarrow> digit_char m = digit_char n \<Longrightarrow> m = n"
proof -
  assume a: "m < 10" "n < 10" "digit_char m = digit_char n"
  have "distinct ''0123456789''" by simp
  then show ?thesis using a unfolding digit_char_def
    by (simp add: nth_eq_iff_index_eq)
qed

lemma digit_char_not_dash: "n < 10 \<Longrightarrow> digit_char n \<noteq> CHR ''-''"
proof -
  assume "n < 10"
  then have "digit_char n \<in> set ''0123456789''"
    unfolding digit_char_def by (intro nth_mem) simp
  then show ?thesis by auto
qed

lemma digit_char_zero: "n < 10 \<Longrightarrow> digit_char n = CHR ''0'' \<Longrightarrow> n = 0"
  using digit_char_inj [of n 0] by (simp add: digit_char_def)

lemma String_nat_not_Nil: "String_nat n \<noteq> []"
  by (subst String_nat.simps) simp

lemma String_nat_no_dash: "CHR ''-'' \<notin> set (String_nat n)"
proof (induction n rule: String_nat.induct)
  case (1 n)
  show ?case
  proof (cases "n < 10")
    case True
    then show ?thesis
      using digit_char_not_dash [of n] by (subst String_nat.simps) auto
  next
    case False
    moreover have "digit_char (n mod 10) \<noteq> CHR ''-''"
      by (rule digit_char_not_dash) simp
    ultimately show ?thesis
      using "1.IH" by (subst String_nat.simps) auto
  qed
qed

lemma String_nat_length: "(length (String_nat n) = 1) = (n < 10)"
proof (cases "n < 10")
  case True
  then show ?thesis by (subst String_nat.simps) simp
next
  case False
  have "String_nat (n div 10) \<noteq> []" by (rule String_nat_not_Nil)
  then have "0 < length (String_nat (n div 10))" by simp
  with False show ?thesis by (subst String_nat.simps) simp
qed

lemma String_nat_hd: "0 < n \<Longrightarrow> hd (String_nat n) \<noteq> CHR ''0''"
proof (induction n rule: String_nat.induct)
  case (1 n)
  show ?case
  proof (cases "n < 10")
    case True
    then show ?thesis
      using "1.prems" digit_char_zero [of n] by (subst String_nat.simps) auto
  next
    case False
    then have "0 < n div 10" by simp
    with False "1.IH" have "hd (String_nat (n div 10)) \<noteq> CHR ''0''" by simp
    then show ?thesis
      using False String_nat_not_Nil [of "n div 10"] by (subst String_nat.simps) simp
  qed
qed

lemma String_nat_inj: "String_nat m = String_nat n \<Longrightarrow> m = n"
proof (induction m arbitrary: n rule: String_nat.induct)
  case (1 m)
  have len: "(m < 10) = (n < 10)"
    using "1.prems" String_nat_length [of m] String_nat_length [of n] by simp
  show ?case
  proof (cases "m < 10")
    case True
    with len have n: "n < 10" by simp
    from "1.prems" True n have "digit_char m = digit_char n"
      by (simp add: String_nat.simps [of m] String_nat.simps [of n])
    with True n show ?thesis by (rule digit_char_inj)
  next
    case False
    with len have n: "\<not> n < 10" by simp
    from "1.prems" False n
    have eq: "String_nat (m div 10) = String_nat (n div 10)"
      "digit_char (m mod 10) = digit_char (n mod 10)"
      by (simp_all add: String_nat.simps [of m] String_nat.simps [of n])
    from False eq(1) have "m div 10 = n div 10" by (rule "1.IH")
    moreover have "m mod 10 = n mod 10"
      using eq(2) by (intro digit_char_inj) simp_all
    ultimately show ?thesis by (metis div_mult_mod_eq)
  qed
qed

lemma String_int_inj: "String_int i = String_int j \<Longrightarrow> i = j"
proof -
  assume a: "String_int i = String_int j"
  have hd: "hd (String_nat k) \<noteq> CHR ''-''" for k
    using String_nat_no_dash [of k] String_nat_not_Nil [of k] by (cases "String_nat k") auto
  have ne: "CHR ''-'' # String_nat k \<noteq> String_nat l" for k l
    using hd [of l] by (cases "String_nat l") auto
  show ?thesis
  proof (cases "i < 0"; cases "j < 0")
    assume "i < 0" "j < 0"
    with a have "nat (- i) = nat (- j)" by (auto simp: String_int_def dest: String_nat_inj)
    with \<open>i < 0\<close> \<open>j < 0\<close> show ?thesis by simp
  next
    assume "i < 0" "\<not> j < 0"
    with a ne show ?thesis by (simp add: String_int_def)
  next
    assume "\<not> i < 0" "j < 0"
    with a ne [of "nat (- j)" "nat i"] show ?thesis by (simp add: String_int_def)
  next
    assume "\<not> i < 0" "\<not> j < 0"
    with a have "nat i = nat j" by (auto simp: String_int_def dest: String_nat_inj)
    with \<open>\<not> i < 0\<close> \<open>\<not> j < 0\<close> show ?thesis by simp
  qed
qed

lemma padStart2_String_nat_inj:
  "padStart2 (String_nat m) = padStart2 (String_nat n) \<Longrightarrow> m = n"
proof -
  assume a: "padStart2 (String_nat m) = padStart2 (String_nat n)"
  have pad: "padStart2 (String_nat k) = (if k < 10 then [CHR ''0'', digit_char k] else String_nat k)" for k
  proof (cases "k < 10")
    case True
    then show ?thesis by (simp add: padStart2_def String_nat.simps [of k])
  next
    case False
    then have "length (String_nat k) \<noteq> 1" using String_nat_length [of k] by blast
    moreover have "length (String_nat k) \<noteq> 0" by (simp add: String_nat_not_Nil)
    ultimately have "2 \<le> length (String_nat k)" by linarith
    with False show ?thesis by (simp add: padStart2_def)
  qed
  have ne: "[CHR ''0'', digit_char k] \<noteq> String_nat l" if "\<not> l < 10" for k l
  proof
    assume "[CHR ''0'', digit_char k] = String_nat l"
    then have "hd (String_nat l) = CHR ''0''" by (metis list.sel(1))
    moreover from that have "0 < l" by simp
    ultimately show False using String_nat_hd by blast
  qed
  show ?thesis
  proof (cases "m < 10"; cases "n < 10")
    assume "m < 10" "n < 10"
    with a show ?thesis by (auto simp: pad dest: digit_char_inj)
  next
    assume "m < 10" "\<not> n < 10"
    with a ne [of n m] show ?thesis by (simp add: pad)
  next
    assume "\<not> m < 10" "n < 10"
    with a ne [of m n] show ?thesis by (simp add: pad)
  next
    assume "\<not> m < 10" "\<not> n < 10"
    with a show ?thesis by (auto simp: pad dest: String_nat_inj)
  qed
qed

lemma padStart2_no_dash: "CHR ''-'' \<notin> set (padStart2 (String_nat n))"
  using String_nat_no_dash [of n] by (auto simp: padStart2_def)

lemma split_last_sep:
  "c \<notin> set ys \<Longrightarrow> c \<notin> set ys' \<Longrightarrow> xs @ c # ys = xs' @ c # ys' \<Longrightarrow> xs = xs' \<and> ys = ys'"
proof (induction xs arbitrary: xs')
  case Nil
  then show ?case by (cases xs') auto
next
  case (Cons x xs)
  then show ?case by (cases xs') auto
qed

lemma dateString_inj: "dateString a = dateString b \<Longrightarrow> a = b"
proof -
  assume eq: "dateString a = dateString b"
  let ?Y = "\<lambda>d. String_int (getFullYear d)"
  let ?M = "\<lambda>d. padStart2 (String_nat (getMonth d + 1))"
  let ?D = "\<lambda>d. padStart2 (String_nat (getDate d))"
  from eq have "(?Y a @ CHR ''-'' # ?M a) @ CHR ''-'' # ?D a = (?Y b @ CHR ''-'' # ?M b) @ CHR ''-'' # ?D b"
    by (simp add: dateString_def)
  with padStart2_no_dash padStart2_no_dash
  have 1: "?Y a @ CHR ''-'' # ?M a = ?Y b @ CHR ''-'' # ?M b \<and> ?D a = ?D b"
    by (rule split_last_sep)
  then have "?Y a @ CHR ''-'' # ?M a = ?Y b @ CHR ''-'' # ?M b" by (rule conjunct1)
  with padStart2_no_dash padStart2_no_dash
  have 2: "?Y a = ?Y b \<and> ?M a = ?M b"
    by (rule split_last_sep)
  from 1 2 have "getFullYear a = getFullYear b" "getMonth a + 1 = getMonth b + 1" "getDate a = getDate b"
    by (auto dest: String_int_inj padStart2_String_nat_inj)
  then show ?thesis by simp
qed

lemma prevDay_less: "date_less (prevDay d) d"
  by (simp add: prevDay_def date_less_def)

lemma date_less_trans: "date_less a b \<Longrightarrow> date_less b c \<Longrightarrow> date_less a c"
  by (auto simp: date_less_def)

lemma date_less_irrefl: "\<not> date_less a a"
  by (simp add: date_less_def)

subsection \<open>The integer square root\<close>

lemma floor_sqrt_bounds:
  "floor_sqrt n * floor_sqrt n \<le> n \<and> n < (floor_sqrt n + 1) * (floor_sqrt n + 1)"
proof (induction n)
  case 0
  show ?case by simp
next
  case (Suc n)
  then show ?case by (auto simp: Let_def)
qed

lemma floor_sqrt_unique:
  assumes "r * r \<le> n" and "n < (r + 1) * (r + 1)"
  shows "floor_sqrt n = r"
proof -
  let ?s = "floor_sqrt n"
  have s: "?s * ?s \<le> n" "n < (?s + 1) * (?s + 1)"
    using floor_sqrt_bounds [of n] by simp_all
  have "\<not> ?s < r"
  proof
    assume "?s < r"
    then have "?s + 1 \<le> r" by linarith
    then have "(?s + 1) * (?s + 1) \<le> r * r" by (intro mult_le_mono)
    with s assms show False by linarith
  qed
  moreover have "\<not> r < ?s"
  proof
    assume "r < ?s"
    then have "r + 1 \<le> ?s" by linarith
    then have "(r + 1) * (r + 1) \<le> ?s * ?s" by (intro mult_le_mono)
    with s assms show False by linarith
  qed
  ultimately show ?thesis by simp
qed

lemma floor_sqrt_mono: "m \<le> n \<Longrightarrow> floor_sqrt m \<le> floor_sqrt n"
proof (induction n)
  case 0
  then show ?case by simp
next
  case (Suc n)
  show ?case
  proof (cases "m = Suc n")
    case True
    then show ?thesis by simp
  next
    case False
    with Suc.prems have "m \<le> n" by simp
    then have "floor_sqrt m \<le> floor_sqrt n" by (rule Suc.IH)
    then show ?thesis by (simp add: Let_def)
  qed
qed

lemma floor_sqrt_real:
  assumes "0 \<le> a" and "0 < b"
  shows "int (floor_sqrt (nat (a div b))) = \<lfloor>sqrt (real_of_int a / real_of_int b)\<rfloor>"
proof -
  define q where "q = nat (a div b)"
  define r where "r = floor_sqrt q"
  define x where "x = real_of_int a / real_of_int b"
  have qa: "int q = a div b"
    using assms by (simp add: q_def pos_imp_zdiv_nonneg_iff)
  have fl: "a div b = \<lfloor>x\<rfloor>"
    by (simp add: x_def floor_divide_of_int_eq)
  have "real_of_int (a div b) \<le> x" "x < real_of_int (a div b) + 1"
    unfolding fl by linarith+
  then have qx: "real q \<le> x" "x < real q + 1"
    using qa by (metis of_int_of_nat_eq)+
  have rb: "r * r \<le> q" "q < (r + 1) * (r + 1)"
    using floor_sqrt_bounds [of q] by (simp_all add: r_def)
  have "real (r * r) \<le> real q" using rb(1) by (rule of_nat_mono)
  then have lo: "(real r)\<^sup>2 \<le> x" using qx(1) by (simp add: power2_eq_square)
  have "q + 1 \<le> (r + 1) * (r + 1)" using rb(2) by simp
  then have "real (q + 1) \<le> real ((r + 1) * (r + 1))" by (rule of_nat_mono)
  then have hi: "x < (real r + 1)\<^sup>2" using qx(2) by (simp add: power2_eq_square algebra_simps)
  have "real r \<le> sqrt x" using lo by (rule real_le_rsqrt)
  moreover have "sqrt x < real r + 1" using hi by (intro real_less_lsqrt) simp_all
  ultimately have "\<lfloor>sqrt x\<rfloor> = int r"
    by (intro floor_unique) simp_all
  then show ?thesis by (simp add: r_def q_def x_def)
qed

subsection \<open>Streak recomputation\<close>

text \<open>
  \<^verbatim>\<open>updateStreak\<close> (lines 227 to 248). The loop condition
  \<^verbatim>\<open>this.state.history[dateStr] && this.state.history[dateStr] > 0\<close> is \<open>hasActivity\<close>: a
  missing entry is \<^verbatim>\<open>undefined\<close> and a stored 0 is falsy. The clock is read once: the
  date that \<^verbatim>\<open>new Date()\<close> starts from and the string that \<^verbatim>\<open>getTodayString()\<close> returns
  inside the loop belong to the same day \<open>today\<close>.
\<close>

definition hasActivity :: "(string, int) fmap \<Rightarrow> string \<Rightarrow> bool" where
  "hasActivity h dateStr =
     (case fmlookup h dateStr of None \<Rightarrow> False | Some v \<Rightarrow> v \<noteq> 0 \<and> 0 < v)"

text \<open>
  The loop ends because the history is finite: the dates with a positive entry that are not
  later than the examined date become fewer with every counted day, and the skip of today
  happens only while the examined date is today.
\<close>

definition activeUpTo :: "(string, int) fmap \<Rightarrow> date \<Rightarrow> date set" where
  "activeUpTo h d = {e. (e = d \<or> date_less e d) \<and> hasActivity h (dateString e)}"

definition streak_measure :: "(string, int) fmap \<times> date \<times> date \<times> int \<Rightarrow> nat" where
  "streak_measure = (\<lambda>(h, today, d, count).
     2 * card (activeUpTo h d) + (if count = 0 \<and> d = today then 1 else 0))"

lemma finite_activeUpTo: "finite (activeUpTo h d)"
proof -
  have "dateString ` activeUpTo h d \<subseteq> fmdom' h"
    by (auto simp: activeUpTo_def hasActivity_def fmdom'I split: option.splits)
  then have "finite (dateString ` activeUpTo h d)"
    by (rule finite_subset) simp
  moreover have "inj_on dateString (activeUpTo h d)"
    by (rule inj_onI) (rule dateString_inj)
  ultimately show ?thesis by (rule finite_imageD)
qed


lemma prevDay_neq: "prevDay d \<noteq> d"
  using prevDay_less [of d] date_less_irrefl [of d] by auto

lemma activeUpTo_prevDay_subset: "activeUpTo h (prevDay d) \<subseteq> activeUpTo h d"
  using prevDay_less [of d] by (auto simp: activeUpTo_def dest: date_less_trans)

lemma activeUpTo_prevDay_card_le: "card (activeUpTo h (prevDay d)) \<le> card (activeUpTo h d)"
  by (intro card_mono finite_activeUpTo activeUpTo_prevDay_subset)

lemma activeUpTo_prevDay_card_less:
  assumes "hasActivity h (dateString d)"
  shows "card (activeUpTo h (prevDay d)) < card (activeUpTo h d)"
proof -
  have "d \<in> activeUpTo h d" using assms by (simp add: activeUpTo_def)
  moreover have "d \<notin> activeUpTo h (prevDay d)"
    using prevDay_less [of d] prevDay_neq [of d] date_less_irrefl [of d]
    by (auto simp: activeUpTo_def dest: date_less_trans)
  ultimately have "activeUpTo h (prevDay d) \<subset> activeUpTo h d"
    using activeUpTo_prevDay_subset [of h d] by blast
  then show ?thesis by (intro psubset_card_mono finite_activeUpTo)
qed

lemma streak_measure_counted:
  assumes "hasActivity h (dateString d)"
  shows "streak_measure (h, today, prevDay d, count + 1) < streak_measure (h, today, d, count)"
proof -
  have "streak_measure (h, today, prevDay d, count + 1) \<le> 2 * card (activeUpTo h (prevDay d)) + 1"
    by (simp add: streak_measure_def)
  also have "\<dots> < 2 * card (activeUpTo h d)"
    using activeUpTo_prevDay_card_less [OF assms] by linarith
  also have "\<dots> \<le> streak_measure (h, today, d, count)"
    by (simp add: streak_measure_def)
  finally show ?thesis .
qed

lemma streak_measure_skipped:
  "count = 0 \<and> dateString d = dateString today \<Longrightarrow>
   streak_measure (h, today, prevDay d, count) < streak_measure (h, today, d, count)"
  using activeUpTo_prevDay_card_le [of h d] prevDay_neq [of today]
  by (auto simp: streak_measure_def dest: dateString_inj)

text \<open>
  The \<^verbatim>\<open>while (true)\<close> loop, on the history, today, the examined date \<^verbatim>\<open>d\<close> and \<^verbatim>\<open>count\<close>.
\<close>

function updateStreak_loop :: "(string, int) fmap \<Rightarrow> date \<Rightarrow> date \<Rightarrow> int \<Rightarrow> int" where
  "updateStreak_loop h today d count =
     (if hasActivity h (dateString d) then updateStreak_loop h today (prevDay d) (count + 1)
      else if count = 0 \<and> dateString d = dateString today then
        updateStreak_loop h today (prevDay d) count
      else count)"
  by pat_completeness auto
termination
proof (relation "measure streak_measure")
  show "wf (measure streak_measure)" by simp
next
  fix h today d and count :: int
  assume "hasActivity h (dateString d)"
  then show "((h, today, prevDay d, count + 1), (h, today, d, count)) \<in> measure streak_measure"
    by (simp add: streak_measure_counted)
next
  fix h today d and count :: int
  assume "\<not> hasActivity h (dateString d)" "count = 0 \<and> dateString d = dateString today"
  then show "((h, today, prevDay d, count), (h, today, d, count)) \<in> measure streak_measure"
    by (simp add: streak_measure_skipped)
qed

declare updateStreak_loop.simps [simp del]

definition updateStreak :: "date \<Rightarrow> state \<Rightarrow> state" where
  "updateStreak today s = s\<lparr>currentStreak := updateStreak_loop (history s) today today 0\<rparr>"

text \<open>
  The same loop, recording for every iteration the date it examined and the branch it took:
  the day was counted, today was skipped, or the loop stopped.
\<close>

datatype branch = Counted | Skipped | Stopped



text \<open>
  A run of \<open>n\<close> counted days from \<open>d\<close> backwards, followed by the stop.
\<close>

definition countedRun :: "date \<Rightarrow> nat \<Rightarrow> (date \<times> branch) list" where
  "countedRun d n = map (\<lambda>i. ((prevDay ^^ i) d, Counted)) [0..<n] @ [((prevDay ^^ n) d, Stopped)]"








lemma map_snd_countedRun: "map snd (countedRun d n) = replicate n Counted @ [Stopped]"
  by (simp add: countedRun_def comp_def map_replicate_const)



subsection \<open>Shape of a run of the streak loop\<close>







subsection \<open>Achievement evaluation\<close>

text \<open>
  \<^verbatim>\<open>checkAchievements\<close> (lines 367 to 374): \<^verbatim>\<open>ACHIEVEMENTS.forEach\<close> is a left fold over the
  list; the body pushes the identifier and schedules the pop-up with the achievement's name
  after 500 ms.
\<close>

definition checkAchievements_body :: "state \<times> timer list \<Rightarrow> achievement \<Rightarrow> state \<times> timer list" where
  "checkAchievements_body acc achievement =
     (case acc of (s, timers) \<Rightarrow>
        if condition achievement s \<and> ach_id achievement \<notin> set (unlockedAchievements s) then
          (s\<lparr>unlockedAchievements := unlockedAchievements s @ [ach_id achievement]\<rparr>,
           timers @ [(500, AchievementNotification (ach_name achievement))])
        else (s, timers))"

definition checkAchievements :: "state \<Rightarrow> state \<times> timer list" where
  "checkAchievements s = foldl checkAchievements_body (s, []) ACHIEVEMENTS"

subsection \<open>Engine operations\<close>

text \<open>
  \<^verbatim>\<open>init\<close> (lines 200 to 225). \<open>savedState\<close> is the result of \<^verbatim>\<open>loadData\<close> (\<open>None\<close> for
  \<^verbatim>\<open>null\<close>), \<open>s\<close> the snapshot held before. \<^verbatim>\<open>!this.state.history[today]\<close> holds when the
  entry is missing or 0.
\<close>

definition loadedState :: "savedState option \<Rightarrow> state \<Rightarrow> state" where
  "loadedState savedState s =
     (case savedState of None \<Rightarrow> s | Some sv \<Rightarrow> mergeSaved getDefaultState sv)"

definition init :: "date \<Rightarrow> savedState option \<Rightarrow> state \<Rightarrow> state" where
  "init clock savedState s =
     (let s0 = loadedState savedState s;
          today = dateString clock
      in if lastDate s0 \<noteq> today then
           updateStreak clock
             (s0\<lparr>lastDate := today,
                 dailies := fmempty,
                 history := (if lookupOr0 (history s0) today = 0
                             then fmupd today 0 (history s0) else history s0)\<rparr>)
         else s0)"

text \<open>
  \<^verbatim>\<open>updateDailyProgress\<close> (lines 265 to 309). \<open>progressDelta\<close> is the branch on the quest type
  (lines 272 to 287) and yields \<^verbatim>\<open>newProgress\<close>, \<^verbatim>\<open>actualXpGain\<close> and \<^verbatim>\<open>completedInc\<close>; the
  two consecutive \<^verbatim>\<open>if\<close> statements of the counter branch are kept in their order. The
  default values \<^verbatim>\<open>type = 'counter'\<close> and \<^verbatim>\<open>max = 1\<close> of the parameters are written out by
  the caller.
\<close>

definition progressDelta :: "int \<Rightarrow> jsvalue \<Rightarrow> int \<Rightarrow> string \<Rightarrow> int \<Rightarrow> int \<times> int \<times> int" where
  "progressDelta currentProgress change xpGain type max' =
     (if type = ''boolean'' then
        (let newProgress = (if truthy change then 1 else 0)
         in if newProgress = 1 \<and> currentProgress = 0 then (newProgress, xpGain, 1)
            else if newProgress = 0 \<and> currentProgress = 1 then (newProgress, - xpGain, - 1)
            else (newProgress, 0, 0))
      else
        (let newProgress = max 0 (min max' (currentProgress + toNumber change));
             diff = newProgress - currentProgress;
             actualXpGain = diff * xpGain;
             completedInc1 = (if newProgress = max' \<and> currentProgress < max' then 1 else 0);
             completedInc =
               (if newProgress < max' \<and> currentProgress = max' then - 1 else completedInc1)
         in (newProgress, actualXpGain, completedInc)))"

definition updateDailyProgress ::
  "date \<Rightarrow> string \<Rightarrow> jsvalue \<Rightarrow> int \<Rightarrow> string \<Rightarrow> int \<Rightarrow> state \<Rightarrow> state \<times> timer list" where
  "updateDailyProgress clock questId change xpGain type max' s =
     (let today = dateString clock;
          currentProgress = lookupOr0 (dailies s) questId;
          (newProgress, actualXpGain, completedInc) =
            progressDelta currentProgress change xpGain type max';
          oldLevel = calculateLevel (xp s);
          s1 = s\<lparr>xp := max 0 (xp s + actualXpGain),
                 totalCompleted := max 0 (totalCompleted s + completedInc),
                 dailies := fmupd questId newProgress (dailies s),
                 history :=
                   fmupd today (max 0 (lookupOr0 (history s) today + completedInc)) (history s)\<rparr>;
          newLevel = calculateLevel (xp s1);
          levelUp =
            (if NaN_gt newLevel oldLevel then [(300, LevelUpNotification newLevel)] else []);
          (s2, unlocked) = checkAchievements s1
      in (updateStreak clock s2, levelUp @ unlocked))"

text \<open>
  \<^verbatim>\<open>addGoal\<close> (lines 311 to 321). \<open>now\<close> is \<^verbatim>\<open>Date.now()\<close>; the target arrives as an integer, on
  which \<^verbatim>\<open>parseInt\<close> is the identity.
\<close>

definition addGoal :: "nat \<Rightarrow> string \<Rightarrow> int \<Rightarrow> state \<Rightarrow> state" where
  "addGoal now title target' s =
     s\<lparr>goals := goals s @
         [\<lparr>goal_id = String_nat now, goal_title = title, target = target', current = 0\<rparr>]\<rparr>"

text \<open>
  \<^verbatim>\<open>updateGoal\<close> (lines 323 to 342). \<^verbatim>\<open>findIndex\<close> yields the first index whose element
  satisfies the predicate, \<open>None\<close> standing for -1.
\<close>

primrec findIndex :: "('a \<Rightarrow> bool) \<Rightarrow> 'a list \<Rightarrow> nat option" where
  "findIndex P [] = None"
| "findIndex P (x # xs) = (if P x then Some 0 else map_option Suc (findIndex P xs))"

definition updateGoal :: "string \<Rightarrow> int \<Rightarrow> state \<Rightarrow> state \<times> timer list" where
  "updateGoal id' change s =
     (case findIndex (\<lambda>g. goal_id g = id') (goals s) of
        None \<Rightarrow> (s, [])
      | Some goalIndex \<Rightarrow>
          (let goal = goals s ! goalIndex;
               newCurrent = max 0 (min (target goal) (current goal + change));
               completedNow = (newCurrent = target goal \<and> current goal < target goal);
               s1 = s\<lparr>goals := (goals s)[goalIndex := goal\<lparr>current := newCurrent\<rparr>]\<rparr>;
               s2 = (if completedNow
                     then s1\<lparr>xp := xp s1 + 200, goalsCompleted := goalsCompleted s1 + 1\<rparr>
                     else s1);
               goalTimer =
                 (if completedNow then [(300, AchievementNotification ''Goal Complete! +200 XP'')]
                  else []);
               (s3, unlocked) = checkAchievements s2
           in (s3, goalTimer @ unlocked)))"

definition deleteGoal :: "string \<Rightarrow> state \<Rightarrow> state" where
  "deleteGoal id' s = s\<lparr>goals := filter (\<lambda>g. goal_id g \<noteq> id') (goals s)\<rparr>"

definition addCustomQuest :: "nat \<Rightarrow> quest \<Rightarrow> state \<Rightarrow> state \<times> timer list" where
  "addCustomQuest now quest s =
     checkAchievements (s\<lparr>customQuests := customQuests s @ [quest\<lparr>quest_id := String_nat now\<rparr>]\<rparr>)"

definition deleteCustomQuest :: "string \<Rightarrow> state \<Rightarrow> state" where
  "deleteCustomQuest id' s = s\<lparr>customQuests := filter (\<lambda>q. quest_id q \<noteq> id') (customQuests s)\<rparr>"

subsection \<open>The documented invariant\<close>

text \<open>
  The quests whose cards \<^verbatim>\<open>renderDailiesView\<close> can show: the templates, the pitch quest of
  Monday to Thursday, and the custom quests. The card of a quest calls
  \<^verbatim>\<open>updateDailyProgress\<close> with the quest's \<^verbatim>\<open>max\<close> for a counter and with the default 1
  otherwise, which is \<open>questMax\<close>.
\<close>

definition questCatalog :: "state \<Rightarrow> quest list" where
  "questCatalog s = DAILY_QUESTS_TEMPLATE @ [PITCH_QUEST] @ customQuests s"

definition questMax :: "quest \<Rightarrow> int" where
  "questMax q =
     (if quest_type q = ''boolean'' then 1
      else (case quest_max q of None \<Rightarrow> 1 | Some m \<Rightarrow> m))"

text \<open>
  The invariant of the specification's data model: xp and the completion counter are not
  negative, no history entry is negative, every goal's progress lies between 0 and its
  target, and the progress stored for a quest lies between 0 and the quest's maximum.
\<close>

definition invariant :: "state \<Rightarrow> bool" where
  "invariant s =
     (0 \<le> xp s \<and> 0 \<le> totalCompleted s \<and>
      fmpred (\<lambda>k v. 0 \<le> v) (history s) \<and>
      list_all (\<lambda>g. 0 \<le> current g \<and> current g \<le> target g) (goals s) \<and>
      list_all (\<lambda>q. case fmlookup (dailies s) (quest_id q) of
                       None \<Rightarrow> True
                     | Some v \<Rightarrow> 0 \<le> v \<and> v \<le> questMax q) (questCatalog s))"

text \<open>
  The achievements that an evaluation of the state \<open>s\<close> unlocks, in the words of the
  specification: those whose predicate holds of \<open>s\<close> and whose identifier is not yet in
  \<^verbatim>\<open>unlockedAchievements\<close>, in the order of the achievement list.
\<close>

definition newlyUnlocked :: "state \<Rightarrow> achievement list" where
  "newlyUnlocked s =
     filter (\<lambda>a. condition a s \<and> ach_id a \<notin> set (unlockedAchievements s)) ACHIEVEMENTS"

subsection \<open>Levels and achievement evaluation\<close>

lemma floor_sqrt_ge_iff: "(r \<le> floor_sqrt n) = (r * r \<le> n)"
proof
  assume "r \<le> floor_sqrt n"
  then have "r * r \<le> floor_sqrt n * floor_sqrt n" by (intro mult_le_mono)
  with floor_sqrt_bounds [of n] show "r * r \<le> n" by linarith
next
  assume a: "r * r \<le> n"
  show "r \<le> floor_sqrt n"
  proof (rule ccontr)
    assume "\<not> r \<le> floor_sqrt n"
    then have "floor_sqrt n + 1 \<le> r" by linarith
    then have "(floor_sqrt n + 1) * (floor_sqrt n + 1) \<le> r * r" by (intro mult_le_mono)
    with a floor_sqrt_bounds [of n] show False by linarith
  qed
qed

lemma level_at_least_iff:
  "NaN_ge (calculateLevel x) (int k + 1) = (int (k * k) * BASE_XP \<le> x)"
proof (cases "x < 0")
  case True
  moreover have "(0::int) \<le> int (k * k) * BASE_XP" by (simp add: BASE_XP_def)
  ultimately have "x < int (k * k) * BASE_XP" by (rule less_le_trans)
  then have "\<not> int (k * k) * BASE_XP \<le> x" by (simp only: not_le)
  with True show ?thesis by (simp add: NaN_ge_def calculateLevel_def)
next
  case False
  then have x: "0 \<le> x" by simp
  have q: "nat (x div 100) = nat x div 100"
    using x by (simp add: nat_div_distrib)
  have "(k \<le> floor_sqrt (nat (x div 100))) = (k * k \<le> nat x div 100)"
    unfolding q by (rule floor_sqrt_ge_iff)
  also have "\<dots> = (k * k * 100 \<le> nat x)"
    by (simp add: less_eq_div_iff_mult_less_eq)
  also have "\<dots> = (int (k * k) * 100 \<le> x)"
    using x by (simp add: le_nat_iff)
  finally show ?thesis
    using x by (simp add: NaN_ge_def calculateLevel_def BASE_XP_def)
qed

lemma level_5_iff: "NaN_ge (calculateLevel x) 5 = (1600 \<le> x)"
  using level_at_least_iff [of x 4] by (simp add: BASE_XP_def)

lemma level_10_iff: "NaN_ge (calculateLevel x) 10 = (8100 \<le> x)"
  using level_at_least_iff [of x 9] by (simp add: BASE_XP_def)

lemma ACHIEVEMENTS_distinct: "distinct (map ach_id ACHIEVEMENTS)"
  by (simp add: ACHIEVEMENTS_def)

lemma ACHIEVEMENTS_condition_frame:
  "a \<in> set ACHIEVEMENTS \<Longrightarrow> condition a (s\<lparr>unlockedAchievements := u\<rparr>) = condition a s"
  by (auto simp: ACHIEVEMENTS_def)

lemma foldl_checkAchievements_body:
  assumes "distinct (map ach_id as)"
    and "\<And>a s u. a \<in> set as \<Longrightarrow> condition a (s\<lparr>unlockedAchievements := u\<rparr>) = condition a s"
  shows "foldl checkAchievements_body (s, timers) as =
     (s\<lparr>unlockedAchievements := unlockedAchievements s @
          map ach_id (filter (\<lambda>a. condition a s \<and> ach_id a \<notin> set (unlockedAchievements s)) as)\<rparr>,
      timers @ map (\<lambda>a. (500, AchievementNotification (ach_name a)))
          (filter (\<lambda>a. condition a s \<and> ach_id a \<notin> set (unlockedAchievements s)) as))"
  using assms
proof (induction as arbitrary: s timers)
  case Nil
  show ?case by simp
next
  case (Cons a as)
  have d: "distinct (map ach_id as)" and "ach_id a \<notin> ach_id ` set as"
    using Cons.prems(1) by simp_all
  then have fresh: "\<forall>b \<in> set as. ach_id b \<noteq> ach_id a"
    by (metis imageI)
  have frame: "\<And>b s u. b \<in> set as \<Longrightarrow> condition b (s\<lparr>unlockedAchievements := u\<rparr>) = condition b s"
    using Cons.prems(2) by simp
  note IH = Cons.IH [OF d frame]
  show ?case
  proof (cases "condition a s \<and> ach_id a \<notin> set (unlockedAchievements s)")
    case True
    let ?s' = "s\<lparr>unlockedAchievements := unlockedAchievements s @ [ach_id a]\<rparr>"
    have same: "filter (\<lambda>b. condition b ?s' \<and> ach_id b \<notin> set (unlockedAchievements ?s')) as =
        filter (\<lambda>b. condition b s \<and> ach_id b \<notin> set (unlockedAchievements s)) as"
      using fresh by (intro filter_cong) (auto simp: frame)
    have step: "checkAchievements_body (s, timers) a =
        (?s', timers @ [(500, AchievementNotification (ach_name a))])"
      using True by (simp add: checkAchievements_body_def)
    have "foldl checkAchievements_body (s, timers) (a # as) =
        foldl checkAchievements_body (?s', timers @ [(500, AchievementNotification (ach_name a))]) as"
      by (simp only: foldl_Cons step)
    also have "\<dots> = (?s'\<lparr>unlockedAchievements := unlockedAchievements ?s' @
          map ach_id (filter (\<lambda>a. condition a s \<and> ach_id a \<notin> set (unlockedAchievements s)) as)\<rparr>,
      (timers @ [(500, AchievementNotification (ach_name a))]) @
        map (\<lambda>a. (500, AchievementNotification (ach_name a)))
          (filter (\<lambda>a. condition a s \<and> ach_id a \<notin> set (unlockedAchievements s)) as))"
      by (simp only: IH same)
    finally show ?thesis using True by simp
  next
    case False
    then have step: "checkAchievements_body (s, timers) a = (s, timers)"
      by (auto simp: checkAchievements_body_def)
    have "foldl checkAchievements_body (s, timers) (a # as) =
        foldl checkAchievements_body (s, timers) as"
      by (simp only: foldl_Cons step)
    then show ?thesis using False by (auto simp: IH)
  qed
qed

lemma checkAchievements_eq:
  "checkAchievements s =
     (s\<lparr>unlockedAchievements := unlockedAchievements s @ map ach_id (newlyUnlocked s)\<rparr>,
      map (\<lambda>a. (500, AchievementNotification (ach_name a))) (newlyUnlocked s))"
  unfolding checkAchievements_def newlyUnlocked_def
  by (subst foldl_checkAchievements_body [OF ACHIEVEMENTS_distinct ACHIEVEMENTS_condition_frame])
    simp_all

lemma newlyUnlocked_after:
  "newlyUnlocked (s\<lparr>unlockedAchievements := unlockedAchievements s @ map ach_id (newlyUnlocked s)\<rparr>) = []"
proof -
  have "\<And>a. a \<in> set ACHIEVEMENTS \<Longrightarrow> condition a s \<Longrightarrow>
      ach_id a \<in> set (unlockedAchievements s) \<or> ach_id a \<in> ach_id ` set (newlyUnlocked s)"
    by (auto simp: newlyUnlocked_def)
  then show ?thesis
    unfolding newlyUnlocked_def [of "s\<lparr>unlockedAchievements := _\<rparr>"]
    by (auto simp: filter_empty_conv ACHIEVEMENTS_condition_frame)
qed

lemma checkAchievements_frame:
  "xp (fst (checkAchievements s)) = xp s"
  "totalCompleted (fst (checkAchievements s)) = totalCompleted s"
  "goalsCompleted (fst (checkAchievements s)) = goalsCompleted s"
  "lastDate (fst (checkAchievements s)) = lastDate s"
  "dailies (fst (checkAchievements s)) = dailies s"
  "goals (fst (checkAchievements s)) = goals s"
  "customQuests (fst (checkAchievements s)) = customQuests s"
  "history (fst (checkAchievements s)) = history s"
  "currentStreak (fst (checkAchievements s)) = currentStreak s"
  by (simp_all add: checkAchievements_eq)

lemma level_5_newlyUnlocked:
  "(''level_5'' \<in> set (map ach_id (newlyUnlocked s))) =
     (1600 \<le> xp s \<and> ''level_5'' \<notin> set (unlockedAchievements s))"
  by (auto simp: newlyUnlocked_def ACHIEVEMENTS_def level_5_iff)

lemma level_5_timer:
  "((500, AchievementNotification ''Rising Developer'') \<in> set (snd (checkAchievements s))) =
     (1600 \<le> xp s \<and> ''level_5'' \<notin> set (unlockedAchievements s))"
  by (auto simp: checkAchievements_eq newlyUnlocked_def ACHIEVEMENTS_def level_5_iff)

lemma newlyUnlocked_distinct: "distinct (map ach_id (newlyUnlocked s))"
  unfolding newlyUnlocked_def by (intro distinct_map_filter ACHIEVEMENTS_distinct)

lemma calculateLevel_1600: "calculateLevel 1600 = Some 5"
proof -
  have "floor_sqrt 16 = 4" by (rule floor_sqrt_unique) simp_all
  then show ?thesis by (simp add: calculateLevel_def BASE_XP_def)
qed

subsection \<open>Goal updates\<close>

lemma findIndex_Some:
  "findIndex P xs = Some i \<Longrightarrow> i < length xs \<and> P (xs ! i) \<and> (\<forall>j<i. \<not> P (xs ! j))"
proof (induction xs arbitrary: i)
  case Nil
  then show ?case by simp
next
  case (Cons x xs)
  show ?case
  proof (cases "P x")
    case True
    with Cons.prems show ?thesis by simp
  next
    case False
    with Cons.prems obtain k where k: "findIndex P xs = Some k" "i = Suc k" by auto
    from Cons.IH [OF k(1)] False k(2) show ?thesis
      by (auto simp: nth_Cons split: nat.splits)
  qed
qed

lemma updateGoal_found:
  assumes "findIndex (\<lambda>g. goal_id g = id') (goals s) = Some i"
  shows "fst (updateGoal id' change s) =
     (let goal = goals s ! i;
          newCurrent = max 0 (min (target goal) (current goal + change));
          s1 = s\<lparr>goals := (goals s)[i := goal\<lparr>current := newCurrent\<rparr>]\<rparr>;
          s2 = (if newCurrent = target goal \<and> current goal < target goal
                then s1\<lparr>xp := xp s1 + 200, goalsCompleted := goalsCompleted s1 + 1\<rparr> else s1)
      in s2\<lparr>unlockedAchievements := unlockedAchievements s2 @ map ach_id (newlyUnlocked s2)\<rparr>)"
  by (simp add: updateGoal_def assms Let_def checkAchievements_eq)

lemma updateGoal_single:
  assumes "goals s = [g]" and "goal_id g = id'"
    and "nc = max 0 (min (target g) (current g + change))"
  shows "goals (fst (updateGoal id' change s)) = [g\<lparr>current := nc\<rparr>]"
    and "xp (fst (updateGoal id' change s)) =
      (if nc = target g \<and> current g < target g then xp s + 200 else xp s)"
    and "goalsCompleted (fst (updateGoal id' change s)) =
      (if nc = target g \<and> current g < target g then goalsCompleted s + 1 else goalsCompleted s)"
proof -
  have f: "findIndex (\<lambda>g. goal_id g = id') (goals s) = Some 0"
    using assms(1,2) by simp
  show "goals (fst (updateGoal id' change s)) = [g\<lparr>current := nc\<rparr>]"
    "xp (fst (updateGoal id' change s)) =
      (if nc = target g \<and> current g < target g then xp s + 200 else xp s)"
    "goalsCompleted (fst (updateGoal id' change s)) =
      (if nc = target g \<and> current g < target g then goalsCompleted s + 1 else goalsCompleted s)"
    using assms by (simp_all add: updateGoal_found [OF f] Let_def)
qed

subsection \<open>Quest progress updates\<close>

lemma updateDailyProgress_state:
  "fst (updateDailyProgress clock questId change xpGain type max' s) =
     (let today = dateString clock;
          delta = progressDelta (lookupOr0 (dailies s) questId) change xpGain type max';
          s1 = s\<lparr>xp := max 0 (xp s + fst (snd delta)),
                 totalCompleted := max 0 (totalCompleted s + snd (snd delta)),
                 dailies := fmupd questId (fst delta) (dailies s),
                 history :=
                   fmupd today (max 0 (lookupOr0 (history s) today + snd (snd delta))) (history s)\<rparr>
      in s1\<lparr>unlockedAchievements := unlockedAchievements s1 @ map ach_id (newlyUnlocked s1),
            currentStreak := updateStreak_loop (history s1) clock clock 0\<rparr>)"
  by (simp add: updateDailyProgress_def Let_def case_prod_beta checkAchievements_eq updateStreak_def)

lemma updateDailyProgress_fields:
  assumes "progressDelta (lookupOr0 (dailies s) questId) change xpGain type max' =
    (newProgress, actualXpGain, completedInc)"
  shows "xp (fst (updateDailyProgress clock questId change xpGain type max' s)) =
      max 0 (xp s + actualXpGain)"
    and "totalCompleted (fst (updateDailyProgress clock questId change xpGain type max' s)) =
      max 0 (totalCompleted s + completedInc)"
    and "dailies (fst (updateDailyProgress clock questId change xpGain type max' s)) =
      fmupd questId newProgress (dailies s)"
    and "history (fst (updateDailyProgress clock questId change xpGain type max' s)) =
      fmupd (dateString clock)
        (max 0 (lookupOr0 (history s) (dateString clock) + completedInc)) (history s)"
    and "goals (fst (updateDailyProgress clock questId change xpGain type max' s)) = goals s"
    and "customQuests (fst (updateDailyProgress clock questId change xpGain type max' s)) =
      customQuests s"
  by (simp_all add: updateDailyProgress_state Let_def assms)

lemma progressDelta_boolean:
  "progressDelta p (JBool b) xpGain ''boolean'' max' =
     (if b then 1 else 0,
      if b \<and> p = 0 then xpGain else if \<not> b \<and> p = 1 then - xpGain else 0,
      if b \<and> p = 0 then 1 else if \<not> b \<and> p = 1 then - 1 else 0)"
  by (simp add: progressDelta_def Let_def)

lemma progressDelta_counter:
  "type \<noteq> ''boolean'' \<Longrightarrow>
   progressDelta p (JNum c) xpGain type max' =
     (max 0 (min max' (p + c)),
      (max 0 (min max' (p + c)) - p) * xpGain,
      if max 0 (min max' (p + c)) = max' \<and> p < max' then 1
      else if max 0 (min max' (p + c)) < max' \<and> p = max' then - 1 else 0)"
  by (auto simp: progressDelta_def Let_def)

lemma lookupOr0_fmupd: "lookupOr0 (fmupd k v m) k' = (if k = k' then v else lookupOr0 m k')"
  by (simp add: lookupOr0_def)

lemma lookupOr0_Some: "fmlookup m k = Some v \<Longrightarrow> lookupOr0 m k = v"
  by (simp add: lookupOr0_def)

text \<open>
  Two snapshots of an application that was left open over midnight, on 2024-01-03: the daily
  rollover last ran on 2024-01-02. In \<open>leftOpen\<close> nothing has been touched since; in
  \<open>overnight\<close> five LeetCode problems and a commit were completed on 2024-01-02 and the
  commit was unmarked after midnight, which created today's history entry.
\<close>

definition leftOpen :: state where
  "leftOpen = getDefaultState\<lparr>lastDate := ''2024-01-02'', history := fmap_of_list [(''2024-01-02'', 0)]\<rparr>"

definition overnight :: state where
  "overnight =
     \<lparr>xp = 75, totalCompleted = 1, goalsCompleted = 0, lastDate = ''2024-01-02'',
      dailies = fmap_of_list [(''leetcode'', 5), (''commit'', 0)], goals = [], customQuests = [],
      history = fmap_of_list [(''2024-01-02'', 2), (''2024-01-03'', 0)],
      unlockedAchievements = [''first_quest''], currentStreak = 1\<rparr>"

subsection \<open>Preservation of the invariant\<close>

lemma progressDelta_range:
  assumes "type \<noteq> ''boolean'' \<longrightarrow> 0 \<le> max'"
  shows "0 \<le> fst (progressDelta p change xpGain type max') \<and>
    fst (progressDelta p change xpGain type max') \<le> (if type = ''boolean'' then 1 else max')"
  using assms by (auto simp: progressDelta_def Let_def)

lemma invariant_updateDailyProgress:
  assumes inv: "invariant s"
    and call: "\<forall>q \<in> set (questCatalog s). quest_id q = questId \<longrightarrow>
      (if type = ''boolean'' then quest_type q = ''boolean''
       else quest_type q \<noteq> ''boolean'' \<and> questMax q = max' \<and> 0 \<le> max')"
  shows "invariant (fst (updateDailyProgress clock questId change xpGain type max' s))"
proof -
  obtain np gain inc where d:
    "progressDelta (lookupOr0 (dailies s) questId) change xpGain type max' = (np, gain, inc)"
    by (metis prod_cases3)
  note f = updateDailyProgress_fields [OF d]
  let ?s' = "fst (updateDailyProgress clock questId change xpGain type max' s)"
  have h: "fmpred (\<lambda>k v. 0 \<le> v) (history ?s')"
    using inv by (auto simp: f invariant_def intro: fmpred_upd)
  have g: "list_all (\<lambda>g. 0 \<le> current g \<and> current g \<le> target g) (goals ?s')"
    using inv by (simp add: f invariant_def)
  have cat: "questCatalog ?s' = questCatalog s"
    by (simp add: questCatalog_def f)
  have q: "list_all (\<lambda>q. case fmlookup (dailies ?s') (quest_id q) of
                       None \<Rightarrow> True
                     | Some v \<Rightarrow> 0 \<le> v \<and> v \<le> questMax q) (questCatalog ?s')"
    unfolding cat list_all_iff
  proof
    fix q assume q: "q \<in> set (questCatalog s)"
    show "case fmlookup (dailies ?s') (quest_id q) of None \<Rightarrow> True
        | Some v \<Rightarrow> 0 \<le> v \<and> v \<le> questMax q"
    proof (cases "quest_id q = questId")
      case True
      with call q have c: "if type = ''boolean'' then quest_type q = ''boolean''
          else quest_type q \<noteq> ''boolean'' \<and> questMax q = max' \<and> 0 \<le> max'"
        by blast
      then have "type \<noteq> ''boolean'' \<longrightarrow> 0 \<le> max'" by (simp split: if_splits)
      from progressDelta_range [OF this, of "lookupOr0 (dailies s) questId" change xpGain]
      have "0 \<le> np \<and> np \<le> (if type = ''boolean'' then 1 else max')"
        by (simp add: d)
      moreover have "(if type = ''boolean'' then 1 else max') = questMax q"
        using c by (auto simp: questMax_def split: if_splits)
      ultimately show ?thesis using True by (simp add: f)
    next
      case False
      with inv q show ?thesis
        by (auto simp: f invariant_def list_all_iff)
    qed
  qed
  show ?thesis
    unfolding invariant_def using h g q by (simp add: f)
qed

lemma invariant_addGoal:
  "invariant s \<Longrightarrow> 0 \<le> target' \<Longrightarrow> invariant (addGoal now title target' s)"
  by (simp add: invariant_def addGoal_def questCatalog_def)

lemma invariant_checkAchievements: "invariant (fst (checkAchievements s)) = invariant s"
  by (simp add: invariant_def checkAchievements_eq questCatalog_def)

lemma invariant_updateGoal:
  assumes inv: "invariant s"
  shows "invariant (fst (updateGoal id' change s))"
proof (cases "findIndex (\<lambda>g. goal_id g = id') (goals s)")
  case None
  with inv show ?thesis by (simp add: updateGoal_def)
next
  case (Some i)
  from findIndex_Some [OF Some] have i: "i < length (goals s)" by simp
  let ?g = "goals s ! i"
  let ?nc = "max 0 (min (target ?g) (current ?g + change))"
  from inv i have "0 \<le> current ?g \<and> current ?g \<le> target ?g"
    by (auto simp: invariant_def list_all_iff)
  then have nc: "0 \<le> ?nc \<and> ?nc \<le> target ?g" by auto
  have "list_all (\<lambda>g. 0 \<le> current g \<and> current g \<le> target g)
      ((goals s)[i := ?g\<lparr>current := ?nc\<rparr>])"
    unfolding list_all_iff
  proof
    fix g assume "g \<in> set ((goals s)[i := ?g\<lparr>current := ?nc\<rparr>])"
    then have "g = ?g\<lparr>current := ?nc\<rparr> \<or> g \<in> set (goals s)"
      using set_update_subset_insert [of "goals s" i] by auto
    with inv nc show "0 \<le> current g \<and> current g \<le> target g"
      by (auto simp: invariant_def list_all_iff)
  qed
  with inv show ?thesis
    by (auto simp: updateGoal_found [OF Some] Let_def invariant_def questCatalog_def)
qed

lemma invariant_deleteGoal: "invariant s \<Longrightarrow> invariant (deleteGoal id' s)"
  by (auto simp: invariant_def deleteGoal_def questCatalog_def list_all_iff)

lemma invariant_addCustomQuest:
  "invariant s \<Longrightarrow> fmlookup (dailies s) (String_nat now) = None \<Longrightarrow>
   invariant (fst (addCustomQuest now quest s))"
  by (simp add: addCustomQuest_def invariant_checkAchievements)
    (simp add: invariant_def questCatalog_def)

lemma invariant_deleteCustomQuest: "invariant s \<Longrightarrow> invariant (deleteCustomQuest id' s)"
  by (auto simp: invariant_def deleteCustomQuest_def questCatalog_def list_all_iff)

text \<open>
  A state with a custom counter quest whose maximum was entered as -3: the form of
  \<^verbatim>\<open>addCustomQuest\<close> reads the field with \<^verbatim>\<open>parseInt(...) || 1\<close> and checks only the title.
\<close>

definition negativeMax :: state where
  "negativeMax = getDefaultState\<lparr>customQuests :=
     [\<lparr>quest_id = ''1704240000000'', quest_title = ''Stretch'', quest_type = ''counter'',
       quest_max = Some (- 3), xpPer = 20, icon = ''star'', desc = ''Custom quest'',
       custom = True\<rparr>]\<rparr>"

section \<open>The claims\<close>



text \<open>
  C2 (as amended). Achievement evaluation appends \<^verbatim>\<open>level_5\<close> if and only if
  \<open>xp \<ge> xpForNextLevel 4 = 1600\<close>, the xp at which \<^verbatim>\<open>calculateLevel\<close> reaches 5, and
  \<^verbatim>\<open>level_5\<close> is not yet in \<^verbatim>\<open>unlockedAchievements\<close>. It is appended at most once, and once
  present it is neither appended nor announced again.
\<close>

theorem level_5_unlocks_at_level_5:
  "unlockedAchievements (fst (checkAchievements s)) =
     unlockedAchievements s @ map ach_id (newlyUnlocked s) \<and>
   (''level_5'' \<in> set (map ach_id (newlyUnlocked s))) =
     (xpForNextLevel 4 \<le> xp s \<and> ''level_5'' \<notin> set (unlockedAchievements s)) \<and>
   xpForNextLevel 4 = 1600 \<and> calculateLevel (xpForNextLevel 4) = Some 5 \<and>
   distinct (map ach_id (newlyUnlocked s)) \<and>
   (''level_5'' \<in> set (unlockedAchievements s) \<longrightarrow>
      ''level_5'' \<notin> set (map ach_id (newlyUnlocked s)) \<and>
      (500, AchievementNotification ''Rising Developer'') \<notin> set (snd (checkAchievements s)))"
proof -
  have x: "xpForNextLevel 4 = 1600" by (simp add: xpForNextLevel_def BASE_XP_def)
  show ?thesis
    unfolding x level_5_newlyUnlocked level_5_timer
    by (simp add: checkAchievements_eq newlyUnlocked_distinct calculateLevel_1600)
qed

theorem level_5_unlocks_at_level_5_witness:
  "''level_5'' \<in> set (unlockedAchievements (getDefaultState\<lparr>xp := 1600, unlockedAchievements := [''level_5'']\<rparr>)) \<and>
   ''level_5'' \<notin> set (map ach_id (newlyUnlocked (getDefaultState\<lparr>xp := 1600, unlockedAchievements := [''level_5'']\<rparr>))) \<and>
   (500, AchievementNotification ''Rising Developer'') \<notin>
     set (snd (checkAchievements (getDefaultState\<lparr>xp := 1600, unlockedAchievements := [''level_5'']\<rparr>)))"
  using level_5_unlocks_at_level_5 [of "getDefaultState\<lparr>xp := 1600, unlockedAchievements := [''level_5'']\<rparr>"]
  by simp

text \<open>
  C2 as stated fails: at 1600 xp, below \<open>xpForNextLevel 5 = 2500\<close>, the evaluation of a state
  without \<^verbatim>\<open>level_5\<close> appends it.
\<close>

theorem level_5_unlocked_below_threshold_of_5:
  "''level_5'' \<notin> set (unlockedAchievements (getDefaultState\<lparr>xp := 1600\<rparr>)) \<and>
   unlockedAchievements (fst (checkAchievements (getDefaultState\<lparr>xp := 1600\<rparr>))) = [''level_5''] \<and>
   \<not> xpForNextLevel 5 \<le> xp (getDefaultState\<lparr>xp := 1600\<rparr>)"
  by (simp add: checkAchievements_eq newlyUnlocked_def ACHIEVEMENTS_def level_5_iff level_10_iff
      getDefaultState_def xpForNextLevel_def BASE_XP_def)

text \<open>
  C3 (as amended). Let xp, \<^verbatim>\<open>totalCompleted\<close> and today's history count (read as 0 when there
  is no entry) be non-negative. For a boolean quest with a non-negative \<^verbatim>\<open>xpPer\<close> that is not
  completed, completing it and then un-completing it restores xp and \<^verbatim>\<open>totalCompleted\<close>
  exactly and leaves today's history entry at its previous value, or at 0 when there was
  no entry. A call whose target equals the quest's current progress changes neither xp nor
  \<^verbatim>\<open>totalCompleted\<close> and leaves today's history entry at its previous value, or at 0 when
  there was none.
\<close>

theorem boolean_toggle_round_trip:
  "0 \<le> xp s \<Longrightarrow> 0 \<le> totalCompleted s \<Longrightarrow> 0 \<le> lookupOr0 (history s) (dateString clock) \<Longrightarrow>
   (let today = dateString clock;
        on = (\<lambda>s. fst (updateDailyProgress clock questId (JBool True) xpGain ''boolean'' max' s));
        off = (\<lambda>s. fst (updateDailyProgress clock questId (JBool False) xpGain ''boolean'' max' s))
    in (0 \<le> xpGain \<and> lookupOr0 (dailies s) questId = 0 \<longrightarrow>
          fmlookup (dailies (on s)) questId = Some 1 \<and>
          fmlookup (dailies (off (on s))) questId = Some 0 \<and>
          xp (on s) = xp s + xpGain \<and> totalCompleted (on s) = totalCompleted s + 1 \<and>
          fmlookup (history (on s)) today = Some (lookupOr0 (history s) today + 1) \<and>
          xp (off (on s)) = xp s \<and> totalCompleted (off (on s)) = totalCompleted s \<and>
          fmlookup (history (off (on s))) today = Some (lookupOr0 (history s) today) \<and>
          (\<forall>v. fmlookup (history s) today = Some v \<longrightarrow>
             fmlookup (history (off (on s))) today = Some v)) \<and>
       (lookupOr0 (dailies s) questId = 1 \<longrightarrow>
          xp (on s) = xp s \<and> totalCompleted (on s) = totalCompleted s \<and>
          fmlookup (history (on s)) today = Some (lookupOr0 (history s) today)) \<and>
       (lookupOr0 (dailies s) questId = 0 \<longrightarrow>
          xp (off s) = xp s \<and> totalCompleted (off s) = totalCompleted s \<and>
          fmlookup (history (off s)) today = Some (lookupOr0 (history s) today)))"
proof -
  assume inv: "0 \<le> xp s" "0 \<le> totalCompleted s" "0 \<le> lookupOr0 (history s) (dateString clock)"
  note f = updateDailyProgress_fields [OF progressDelta_boolean]
  show ?thesis
    unfolding Let_def using inv
    by (auto simp: f lookupOr0_fmupd lookupOr0_Some)
qed

theorem boolean_toggle_round_trip_witness:
  "0 \<le> xp overnight \<and> 0 \<le> totalCompleted overnight \<and>
   0 \<le> lookupOr0 (history overnight) (dateString \<lparr>getFullYear = 2024, getMonth = 0, getDate = 3\<rparr>) \<and>
   (0::int) \<le> 25 \<and> lookupOr0 (dailies overnight) ''commit'' = 0 \<and>
   xp (fst (updateDailyProgress \<lparr>getFullYear = 2024, getMonth = 0, getDate = 3\<rparr>
        ''commit'' (JBool True) 25 ''boolean'' 1 overnight)) = 100 \<and>
   xp (fst (updateDailyProgress \<lparr>getFullYear = 2024, getMonth = 0, getDate = 3\<rparr>
        ''commit'' (JBool False) 25 ''boolean'' 1
        (fst (updateDailyProgress \<lparr>getFullYear = 2024, getMonth = 0, getDate = 3\<rparr>
           ''commit'' (JBool True) 25 ''boolean'' 1 overnight)))) = 75 \<and>
   totalCompleted (fst (updateDailyProgress \<lparr>getFullYear = 2024, getMonth = 0, getDate = 3\<rparr>
        ''commit'' (JBool False) 25 ''boolean'' 1
        (fst (updateDailyProgress \<lparr>getFullYear = 2024, getMonth = 0, getDate = 3\<rparr>
           ''commit'' (JBool True) 25 ''boolean'' 1 overnight)))) = 1 \<and>
   fmlookup (history (fst (updateDailyProgress \<lparr>getFullYear = 2024, getMonth = 0, getDate = 3\<rparr>
        ''commit'' (JBool False) 25 ''boolean'' 1
        (fst (updateDailyProgress \<lparr>getFullYear = 2024, getMonth = 0, getDate = 3\<rparr>
           ''commit'' (JBool True) 25 ''boolean'' 1 overnight))))) ''2024-01-03'' = Some 0 \<and>
   xp (fst (updateDailyProgress \<lparr>getFullYear = 2024, getMonth = 0, getDate = 3\<rparr>
        ''commit'' (JBool False) 25 ''boolean'' 1 overnight)) = 75"
proof -
  define clock where "clock = \<lparr>getFullYear = 2024, getMonth = 0, getDate = 3\<rparr>"
  have today: "dateString clock = ''2024-01-03''"
    by (simp add: clock_def dateString_def String_int_def String_nat.simps padStart2_def
        digit_char_def)
  have p: "xp overnight = 75" "totalCompleted overnight = 1"
    "lookupOr0 (history overnight) ''2024-01-03'' = 0"
    "lookupOr0 (dailies overnight) ''commit'' = 0"
    by (simp_all add: overnight_def lookupOr0_def fmlookup_of_list)
  have pre: "0 \<le> xp overnight" "0 \<le> totalCompleted overnight"
    "0 \<le> lookupOr0 (history overnight) (dateString clock)"
    by (simp_all add: p today)
  from boolean_toggle_round_trip [OF pre, of "''commit''" 25 1]
  have "xp (fst (updateDailyProgress clock ''commit'' (JBool True) 25 ''boolean'' 1 overnight)) = 100 \<and>
    xp (fst (updateDailyProgress clock ''commit'' (JBool False) 25 ''boolean'' 1
      (fst (updateDailyProgress clock ''commit'' (JBool True) 25 ''boolean'' 1 overnight)))) = 75 \<and>
    totalCompleted (fst (updateDailyProgress clock ''commit'' (JBool False) 25 ''boolean'' 1
      (fst (updateDailyProgress clock ''commit'' (JBool True) 25 ''boolean'' 1 overnight)))) = 1 \<and>
    fmlookup (history (fst (updateDailyProgress clock ''commit'' (JBool False) 25 ''boolean'' 1
      (fst (updateDailyProgress clock ''commit'' (JBool True) 25 ''boolean'' 1 overnight)))))
      ''2024-01-03'' = Some 0 \<and>
    xp (fst (updateDailyProgress clock ''commit'' (JBool False) 25 ''boolean'' 1 overnight)) = 75"
    unfolding Let_def today p by simp
  with pre p(4) show ?thesis unfolding clock_def by simp
qed

text \<open>
  C3 as stated fails where today has no history entry yet: after the round trip the history
  holds the entry 0 for today, which it did not hold before.
\<close>

theorem boolean_toggle_creates_history_entry:
  "lookupOr0 (dailies leftOpen) ''commit'' = 0 \<and>
   fmlookup (dailies (fst (updateDailyProgress \<lparr>getFullYear = 2024, getMonth = 0, getDate = 3\<rparr>
        ''commit'' (JBool True) 25 ''boolean'' 1 leftOpen))) ''commit'' = Some 1 \<and>
   fmlookup (dailies (fst (updateDailyProgress \<lparr>getFullYear = 2024, getMonth = 0, getDate = 3\<rparr>
        ''commit'' (JBool False) 25 ''boolean'' 1
        (fst (updateDailyProgress \<lparr>getFullYear = 2024, getMonth = 0, getDate = 3\<rparr>
           ''commit'' (JBool True) 25 ''boolean'' 1 leftOpen))))) ''commit'' = Some 0 \<and>
   fmlookup (history leftOpen) ''2024-01-03'' = None \<and>
   fmlookup (history (fst (updateDailyProgress \<lparr>getFullYear = 2024, getMonth = 0, getDate = 3\<rparr>
        ''commit'' (JBool False) 25 ''boolean'' 1
        (fst (updateDailyProgress \<lparr>getFullYear = 2024, getMonth = 0, getDate = 3\<rparr>
           ''commit'' (JBool True) 25 ''boolean'' 1 leftOpen))))) ''2024-01-03'' = Some 0"
proof -
  have today: "dateString \<lparr>getFullYear = 2024, getMonth = 0, getDate = 3\<rparr> = ''2024-01-03''"
    by (simp add: dateString_def String_int_def String_nat.simps padStart2_def digit_char_def)
  have p: "lookupOr0 (dailies leftOpen) ''commit'' = 0"
    "lookupOr0 (history leftOpen) ''2024-01-03'' = 0"
    "fmlookup (history leftOpen) ''2024-01-03'' = None"
    by (simp_all add: leftOpen_def getDefaultState_def lookupOr0_def fmlookup_of_list)
  note f = updateDailyProgress_fields [OF progressDelta_boolean]
  show ?thesis
    by (simp add: f p today lookupOr0_fmupd)
qed

text \<open>
  C4 (as amended). For a quest that is not of type \<^verbatim>\<open>boolean\<close>, with current progress \<open>p\<close>
  and an integer change \<open>c\<close>, \<^verbatim>\<open>updateDailyProgress\<close> sets the progress to
  \<open>max 0 (min max (p + c))\<close>, sets xp to \<open>xp + (newProgress - p) * xpPerUnit\<close> floored at 0, and
  changes \<^verbatim>\<open>totalCompleted\<close> and today's history count (0 when there is no entry) by +1
  when the new progress equals \<open>max\<close> and \<open>p < max\<close>, by -1 when the new progress is below
  \<open>max\<close> and \<open>p = max\<close>, and by 0 otherwise, each floored at 0.
\<close>

theorem counter_update_clamped_and_floored:
  "type \<noteq> ''boolean'' \<Longrightarrow>
   (let p = lookupOr0 (dailies s) questId;
        today = dateString clock;
        newProgress = max 0 (min max' (p + c));
        inc = (if newProgress = max' \<and> p < max' then 1
               else if newProgress < max' \<and> p = max' then - 1 else 0);
        s' = fst (updateDailyProgress clock questId (JNum c) xpGain type max' s)
    in fmlookup (dailies s') questId = Some newProgress \<and>
       xp s' = max 0 (xp s + (newProgress - p) * xpGain) \<and>
       totalCompleted s' = max 0 (totalCompleted s + inc) \<and>
       fmlookup (history s') today = Some (max 0 (lookupOr0 (history s) today + inc)) \<and>
       (0 \<le> totalCompleted s + inc \<longrightarrow> totalCompleted s' = totalCompleted s + inc) \<and>
       (0 \<le> lookupOr0 (history s) today + inc \<longrightarrow>
          fmlookup (history s') today = Some (lookupOr0 (history s) today + inc)))"
proof -
  assume t: "type \<noteq> ''boolean''"
  note f = updateDailyProgress_fields [OF progressDelta_counter [OF t]]
  show ?thesis
    unfolding Let_def by (simp add: f)
qed

theorem counter_update_clamped_and_floored_witness:
  "''counter'' \<noteq> ''boolean'' \<and>
   lookupOr0 (dailies (getDefaultState\<lparr>dailies := fmap_of_list [(''leetcode'', 4)]\<rparr>)) ''leetcode'' = 4 \<and>
   fmlookup (dailies (fst (updateDailyProgress \<lparr>getFullYear = 2024, getMonth = 0, getDate = 3\<rparr>
      ''leetcode'' (JNum 1) 15 ''counter'' 5
      (getDefaultState\<lparr>dailies := fmap_of_list [(''leetcode'', 4)]\<rparr>)))) ''leetcode'' = Some 5 \<and>
   xp (fst (updateDailyProgress \<lparr>getFullYear = 2024, getMonth = 0, getDate = 3\<rparr>
      ''leetcode'' (JNum 1) 15 ''counter'' 5
      (getDefaultState\<lparr>dailies := fmap_of_list [(''leetcode'', 4)]\<rparr>))) = 15 \<and>
   totalCompleted (fst (updateDailyProgress \<lparr>getFullYear = 2024, getMonth = 0, getDate = 3\<rparr>
      ''leetcode'' (JNum 1) 15 ''counter'' 5
      (getDefaultState\<lparr>dailies := fmap_of_list [(''leetcode'', 4)]\<rparr>))) = 1 \<and>
   fmlookup (history (fst (updateDailyProgress \<lparr>getFullYear = 2024, getMonth = 0, getDate = 3\<rparr>
      ''leetcode'' (JNum 1) 15 ''counter'' 5
      (getDefaultState\<lparr>dailies := fmap_of_list [(''leetcode'', 4)]\<rparr>)))) ''2024-01-03'' = Some 1"
proof -
  define clock where "clock = \<lparr>getFullYear = 2024, getMonth = 0, getDate = 3\<rparr>"
  define s where "s = getDefaultState\<lparr>dailies := fmap_of_list [(''leetcode'', 4)]\<rparr>"
  have today: "dateString clock = ''2024-01-03''"
    by (simp add: clock_def dateString_def String_int_def String_nat.simps padStart2_def
        digit_char_def)
  have t: "''counter'' \<noteq> ''boolean''" by simp
  have p: "lookupOr0 (dailies s) ''leetcode'' = 4" "lookupOr0 (history s) ''2024-01-03'' = 0"
    "xp s = 0" "totalCompleted s = 0"
    by (simp_all add: s_def lookupOr0_def fmlookup_of_list getDefaultState_def)
  from counter_update_clamped_and_floored [OF t, of s "''leetcode''" clock 5 1 15]
  have "fmlookup (dailies (fst (updateDailyProgress clock ''leetcode'' (JNum 1) 15 ''counter'' 5 s)))
        ''leetcode'' = Some 5 \<and>
      xp (fst (updateDailyProgress clock ''leetcode'' (JNum 1) 15 ''counter'' 5 s)) = 15 \<and>
      totalCompleted (fst (updateDailyProgress clock ''leetcode'' (JNum 1) 15 ''counter'' 5 s)) = 1 \<and>
      fmlookup (history (fst (updateDailyProgress clock ''leetcode'' (JNum 1) 15 ''counter'' 5 s)))
        ''2024-01-03'' = Some 1"
    unfolding Let_def today p by simp
  with t p(1) show ?thesis unfolding clock_def s_def by simp
qed

text \<open>
  C4 as stated fails at the floor: in \<open>overnight\<close> the LeetCode counter is at its maximum and
  today's history count is 0; the decrement leaves the count at 0 instead of changing it
  by -1.
\<close>

theorem counter_decrement_floored_at_zero:
  "lookupOr0 (dailies overnight) ''leetcode'' = 5 \<and>
   fmlookup (dailies (fst (updateDailyProgress \<lparr>getFullYear = 2024, getMonth = 0, getDate = 3\<rparr>
      ''leetcode'' (JNum (- 1)) 15 ''counter'' 5 overnight))) ''leetcode'' = Some 4 \<and>
   fmlookup (history overnight) ''2024-01-03'' = Some 0 \<and>
   fmlookup (history (fst (updateDailyProgress \<lparr>getFullYear = 2024, getMonth = 0, getDate = 3\<rparr>
      ''leetcode'' (JNum (- 1)) 15 ''counter'' 5 overnight))) ''2024-01-03'' = Some 0"
proof -
  have today: "dateString \<lparr>getFullYear = 2024, getMonth = 0, getDate = 3\<rparr> = ''2024-01-03''"
    by (simp add: dateString_def String_int_def String_nat.simps padStart2_def digit_char_def)
  have p: "lookupOr0 (dailies overnight) ''leetcode'' = 5"
    "lookupOr0 (history overnight) ''2024-01-03'' = 0"
    "fmlookup (history overnight) ''2024-01-03'' = Some 0"
    by (simp_all add: overnight_def lookupOr0_def fmlookup_of_list)
  have t: "''counter'' \<noteq> ''boolean''" by simp
  note f = updateDailyProgress_fields [OF progressDelta_counter [OF t]]
  show ?thesis
    by (simp add: f p today)
qed

text \<open>
  C5. When the state has a goal with the given identifier, \<^verbatim>\<open>updateGoal\<close> replaces the progress
  of the first such goal by \<open>max 0 (min target (current + change))\<close>, which lies in
  \<open>[0, target]\<close> for a target that is not negative. It adds 200 to xp and 1 to
  \<^verbatim>\<open>goalsCompleted\<close> exactly when the new progress equals the target and the old progress was
  strictly below it, and changes neither otherwise. In particular an update at
  \<open>current = target\<close> grants nothing. With target 10 and increments 3, 3, 3, 1 (and one
  more), the bonus is granted once, by the fourth increment.
\<close>

theorem updateGoal_clamps_and_rewards_once:
  "findIndex (\<lambda>g. goal_id g = id') (goals s) = Some i \<Longrightarrow>
   (let g = goals s ! i;
        newCurrent = max 0 (min (target g) (current g + change));
        s' = fst (updateGoal id' change s)
    in i < length (goals s) \<and> goal_id g = id' \<and>
       goals s' = (goals s)[i := g\<lparr>current := newCurrent\<rparr>] \<and>
       (0 \<le> target g \<longrightarrow> 0 \<le> newCurrent \<and> newCurrent \<le> target g) \<and>
       (if newCurrent = target g \<and> current g < target g
        then xp s' = xp s + 200 \<and> goalsCompleted s' = goalsCompleted s + 1
        else xp s' = xp s \<and> goalsCompleted s' = goalsCompleted s) \<and>
       (current g = target g \<longrightarrow> xp s' = xp s \<and> goalsCompleted s' = goalsCompleted s)) \<and>
   (let s0 = addGoal 7 ''Ship it'' 10 getDefaultState;
        s1 = fst (updateGoal ''7'' 3 s0);
        s2 = fst (updateGoal ''7'' 3 s1);
        s3 = fst (updateGoal ''7'' 3 s2);
        s4 = fst (updateGoal ''7'' 1 s3);
        s5 = fst (updateGoal ''7'' 1 s4)
    in map (\<lambda>s. map current (goals s)) [s0, s1, s2, s3, s4, s5] = [[0], [3], [6], [9], [10], [10]] \<and>
       map xp [s0, s1, s2, s3, s4, s5] = [0, 0, 0, 0, 200, 200] \<and>
       map goalsCompleted [s0, s1, s2, s3, s4, s5] = [0, 0, 0, 0, 1, 1])"
proof
  assume f: "findIndex (\<lambda>g. goal_id g = id') (goals s) = Some i"
  from findIndex_Some [OF f] have i: "i < length (goals s)" "goal_id (goals s ! i) = id'"
    by simp_all
  show "let g = goals s ! i;
        newCurrent = max 0 (min (target g) (current g + change));
        s' = fst (updateGoal id' change s)
    in i < length (goals s) \<and> goal_id g = id' \<and>
       goals s' = (goals s)[i := g\<lparr>current := newCurrent\<rparr>] \<and>
       (0 \<le> target g \<longrightarrow> 0 \<le> newCurrent \<and> newCurrent \<le> target g) \<and>
       (if newCurrent = target g \<and> current g < target g
        then xp s' = xp s + 200 \<and> goalsCompleted s' = goalsCompleted s + 1
        else xp s' = xp s \<and> goalsCompleted s' = goalsCompleted s) \<and>
       (current g = target g \<longrightarrow> xp s' = xp s \<and> goalsCompleted s' = goalsCompleted s)"
    using i by (simp add: updateGoal_found [OF f] Let_def)
next
  define g :: "int \<Rightarrow> goal" where
    "g c = \<lparr>goal_id = ''7'', goal_title = ''Ship it'', target = 10, current = c\<rparr>" for c
  define s0 where "s0 = addGoal 7 ''Ship it'' 10 getDefaultState"
  define s1 where "s1 = fst (updateGoal ''7'' 3 s0)"
  define s2 where "s2 = fst (updateGoal ''7'' 3 s1)"
  define s3 where "s3 = fst (updateGoal ''7'' 3 s2)"
  define s4 where "s4 = fst (updateGoal ''7'' 1 s3)"
  define s5 where "s5 = fst (updateGoal ''7'' 1 s4)"
  have gs: "goal_id (g c) = ''7''" "target (g c) = 10" "current (g c) = c"
    "(g c)\<lparr>current := c'\<rparr> = g c'" for c c'
    by (simp_all add: g_def)
  have 0: "goals s0 = [g 0]" "xp s0 = 0" "goalsCompleted s0 = 0"
    by (simp_all add: s0_def addGoal_def getDefaultState_def g_def String_nat.simps digit_char_def)
  have 1: "goals s1 = [g 3]" "xp s1 = 0" "goalsCompleted s1 = 0"
    unfolding s1_def using updateGoal_single [OF 0(1) gs(1) refl, of 3] by (simp_all add: gs 0)
  have 2: "goals s2 = [g 6]" "xp s2 = 0" "goalsCompleted s2 = 0"
    unfolding s2_def using updateGoal_single [OF 1(1) gs(1) refl, of 3] by (simp_all add: gs 1)
  have 3: "goals s3 = [g 9]" "xp s3 = 0" "goalsCompleted s3 = 0"
    unfolding s3_def using updateGoal_single [OF 2(1) gs(1) refl, of 3] by (simp_all add: gs 2)
  have 4: "goals s4 = [g 10]" "xp s4 = 200" "goalsCompleted s4 = 1"
    unfolding s4_def using updateGoal_single [OF 3(1) gs(1) refl, of 1] by (simp_all add: gs 3)
  have 5: "goals s5 = [g 10]" "xp s5 = 200" "goalsCompleted s5 = 1"
    unfolding s5_def using updateGoal_single [OF 4(1) gs(1) refl, of 1] by (simp_all add: gs 4)
  have "map (\<lambda>s. map current (goals s)) [s0, s1, s2, s3, s4, s5] = [[0], [3], [6], [9], [10], [10]] \<and>
       map xp [s0, s1, s2, s3, s4, s5] = [0, 0, 0, 0, 200, 200] \<and>
       map goalsCompleted [s0, s1, s2, s3, s4, s5] = [0, 0, 0, 0, 1, 1]"
    by (simp add: 0 1 2 3 4 5 gs)
  then show "let s0 = addGoal 7 ''Ship it'' 10 getDefaultState;
        s1 = fst (updateGoal ''7'' 3 s0);
        s2 = fst (updateGoal ''7'' 3 s1);
        s3 = fst (updateGoal ''7'' 3 s2);
        s4 = fst (updateGoal ''7'' 1 s3);
        s5 = fst (updateGoal ''7'' 1 s4)
    in map (\<lambda>s. map current (goals s)) [s0, s1, s2, s3, s4, s5] = [[0], [3], [6], [9], [10], [10]] \<and>
       map xp [s0, s1, s2, s3, s4, s5] = [0, 0, 0, 0, 200, 200] \<and>
       map goalsCompleted [s0, s1, s2, s3, s4, s5] = [0, 0, 0, 0, 1, 1]"
    unfolding Let_def s0_def s1_def s2_def s3_def s4_def s5_def .
qed

theorem updateGoal_clamps_and_rewards_once_witness:
  "findIndex (\<lambda>g. goal_id g = ''7'')
      (goals (getDefaultState\<lparr>goals := [\<lparr>goal_id = ''7'', goal_title = ''Ship it'', target = 10, current = 9\<rparr>]\<rparr>)) = Some 0 \<and>
   xp (fst (updateGoal ''7'' 5
      (getDefaultState\<lparr>goals := [\<lparr>goal_id = ''7'', goal_title = ''Ship it'', target = 10, current = 9\<rparr>]\<rparr>))) = 200 \<and>
   goalsCompleted (fst (updateGoal ''7'' 5
      (getDefaultState\<lparr>goals := [\<lparr>goal_id = ''7'', goal_title = ''Ship it'', target = 10, current = 9\<rparr>]\<rparr>))) = 1 \<and>
   map current (goals (fst (updateGoal ''7'' 5
      (getDefaultState\<lparr>goals := [\<lparr>goal_id = ''7'', goal_title = ''Ship it'', target = 10, current = 9\<rparr>]\<rparr>)))) = [10]"
proof -
  define s where "s = getDefaultState\<lparr>goals :=
    [\<lparr>goal_id = ''7'', goal_title = ''Ship it'', target = 10, current = 9\<rparr>]\<rparr>"
  have f: "findIndex (\<lambda>g. goal_id g = ''7'') (goals s) = Some 0"
    by (simp add: s_def)
  have "xp (fst (updateGoal ''7'' 5 s)) = 200 \<and> goalsCompleted (fst (updateGoal ''7'' 5 s)) = 1 \<and>
      map current (goals (fst (updateGoal ''7'' 5 s))) = [10]"
    using updateGoal_clamps_and_rewards_once [OF f, of 5] unfolding Let_def by (simp add: s_def getDefaultState_def)
  with f show ?thesis unfolding s_def by simp
qed

text \<open>
  C6. When the loaded state's \<^verbatim>\<open>lastDate\<close> differs from today, \<^verbatim>\<open>init\<close> sets \<^verbatim>\<open>lastDate\<close> to
  today, empties \<^verbatim>\<open>dailies\<close>, gives today the history entry 0 when it had none and keeps the
  entry it had otherwise, and keeps the history entry of every other date.
\<close>

theorem init_daily_rollover:
  "lastDate (loadedState savedState s) \<noteq> dateString clock \<Longrightarrow>
   (let s0 = loadedState savedState s; s' = init clock savedState s; today = dateString clock
    in lastDate s' = today \<and> dailies s' = fmempty \<and>
       fmlookup (history s') today =
         (case fmlookup (history s0) today of None \<Rightarrow> Some 0 | Some v \<Rightarrow> Some v) \<and>
       (\<forall>k. k \<noteq> today \<longrightarrow> fmlookup (history s') k = fmlookup (history s0) k))"
  by (auto simp: init_def Let_def updateStreak_def lookupOr0_def split: option.splits)

theorem init_daily_rollover_witness:
  "lastDate (loadedState None (getDefaultState\<lparr>lastDate := ''2024-01-02'',
      dailies := fmap_of_list [(''commit'', 1)],
      history := fmap_of_list [(''2024-01-01'', 2), (''2024-01-02'', 1)]\<rparr>)) \<noteq>
     dateString \<lparr>getFullYear = 2024, getMonth = 0, getDate = 3\<rparr> \<and>
   lastDate (init \<lparr>getFullYear = 2024, getMonth = 0, getDate = 3\<rparr> None
     (getDefaultState\<lparr>lastDate := ''2024-01-02'',
      dailies := fmap_of_list [(''commit'', 1)],
      history := fmap_of_list [(''2024-01-01'', 2), (''2024-01-02'', 1)]\<rparr>)) = ''2024-01-03'' \<and>
   dailies (init \<lparr>getFullYear = 2024, getMonth = 0, getDate = 3\<rparr> None
     (getDefaultState\<lparr>lastDate := ''2024-01-02'',
      dailies := fmap_of_list [(''commit'', 1)],
      history := fmap_of_list [(''2024-01-01'', 2), (''2024-01-02'', 1)]\<rparr>)) = fmempty \<and>
   fmlookup (history (init \<lparr>getFullYear = 2024, getMonth = 0, getDate = 3\<rparr> None
     (getDefaultState\<lparr>lastDate := ''2024-01-02'',
      dailies := fmap_of_list [(''commit'', 1)],
      history := fmap_of_list [(''2024-01-01'', 2), (''2024-01-02'', 1)]\<rparr>))) ''2024-01-03'' = Some 0 \<and>
   fmlookup (history (init \<lparr>getFullYear = 2024, getMonth = 0, getDate = 3\<rparr> None
     (getDefaultState\<lparr>lastDate := ''2024-01-02'',
      dailies := fmap_of_list [(''commit'', 1)],
      history := fmap_of_list [(''2024-01-01'', 2), (''2024-01-02'', 1)]\<rparr>))) ''2024-01-02'' = Some 1"
proof -
  define clock where "clock = \<lparr>getFullYear = 2024, getMonth = 0, getDate = 3\<rparr>"
  define s where "s = getDefaultState\<lparr>lastDate := ''2024-01-02'',
      dailies := fmap_of_list [(''commit'', 1)],
      history := fmap_of_list [(''2024-01-01'', 2), (''2024-01-02'', 1)]\<rparr>"
  have today: "dateString clock = ''2024-01-03''"
    by (simp add: clock_def dateString_def String_int_def String_nat.simps padStart2_def
        digit_char_def)
  have s0: "loadedState None s = s" by (simp add: loadedState_def)
  have pre: "lastDate (loadedState None s) \<noteq> dateString clock"
    by (simp add: s0 today) (simp add: s_def)
  have h: "fmlookup (history s) ''2024-01-03'' = None"
    "fmlookup (history s) ''2024-01-02'' = Some 1"
    by (simp_all add: s_def fmlookup_of_list)
  from init_daily_rollover [OF pre] have
    "lastDate (init clock None s) = ''2024-01-03'' \<and> dailies (init clock None s) = fmempty \<and>
     fmlookup (history (init clock None s)) ''2024-01-03'' = Some 0 \<and>
     fmlookup (history (init clock None s)) ''2024-01-02'' = Some 1"
    unfolding Let_def s0 today by (simp add: h)
  with pre show ?thesis unfolding clock_def s_def by simp
qed

text \<open>
  C7 (as amended). Every engine operation preserves the invariant (xp, \<^verbatim>\<open>totalCompleted\<close> and
  every history entry are not negative, every goal's progress lies in \<open>[0, target]\<close>, the
  progress stored for a quest lies in \<open>[0, max]\<close> of the quest, with 1 for a boolean quest),
  also where a decrement meets the floor 0, provided the operation's input is well-formed:
  \<^verbatim>\<open>updateDailyProgress\<close> is called with the type of the quests that carry the identifier
  and, for a counter, with their maximum, which is not negative; \<^verbatim>\<open>addGoal\<close> is given a target
  that is not negative; \<^verbatim>\<open>addCustomQuest\<close> generates an identifier under which \<^verbatim>\<open>dailies\<close>
  holds no progress. \<^verbatim>\<open>updateGoal\<close>, \<^verbatim>\<open>deleteGoal\<close> and \<^verbatim>\<open>deleteCustomQuest\<close> need no
  proviso.
\<close>

theorem operations_preserve_invariant:
  "invariant s \<Longrightarrow>
   ((\<forall>q \<in> set (questCatalog s). quest_id q = questId \<longrightarrow>
       (if type = ''boolean'' then quest_type q = ''boolean''
        else quest_type q \<noteq> ''boolean'' \<and> questMax q = max' \<and> 0 \<le> max')) \<longrightarrow>
      invariant (fst (updateDailyProgress clock questId change xpGain type max' s))) \<and>
   (0 \<le> target' \<longrightarrow> invariant (addGoal now title target' s)) \<and>
   invariant (fst (updateGoal id' delta s)) \<and>
   invariant (deleteGoal id' s) \<and>
   (fmlookup (dailies s) (String_nat now) = None \<longrightarrow>
      invariant (fst (addCustomQuest now quest s))) \<and>
   invariant (deleteCustomQuest id' s)"
  by (simp add: invariant_updateDailyProgress invariant_addGoal invariant_updateGoal
      invariant_deleteGoal invariant_addCustomQuest invariant_deleteCustomQuest)

theorem operations_preserve_invariant_witness:
  "invariant overnight \<and>
   fmlookup (dailies overnight) (String_nat 1704240000000) = None \<and>
   invariant (fst (updateDailyProgress \<lparr>getFullYear = 2024, getMonth = 0, getDate = 3\<rparr>
       ''leetcode'' (JNum (- 1)) 15 ''counter'' 5 overnight)) \<and>
   invariant (addGoal 1704240000000 ''Ship it'' 10 overnight) \<and>
   invariant (fst (updateGoal ''7'' 1 overnight)) \<and>
   invariant (deleteGoal ''7'' overnight) \<and>
   invariant (fst (addCustomQuest 1704240000000
       \<lparr>quest_id = [], quest_title = ''Stretch'', quest_type = ''counter'', quest_max = Some 3,
        xpPer = 20, icon = ''star'', desc = ''Custom quest'', custom = True\<rparr> overnight)) \<and>
   invariant (deleteCustomQuest ''7'' overnight)"
proof -
  have inv: "invariant overnight"
    by (auto simp: invariant_def overnight_def questCatalog_def DAILY_QUESTS_TEMPLATE_def
        PITCH_QUEST_def questMax_def fmlookup_of_list intro!: fmpred_upd)
  have call: "\<forall>q \<in> set (questCatalog overnight). quest_id q = ''leetcode'' \<longrightarrow>
       (if ''counter'' = ''boolean'' then quest_type q = ''boolean''
        else quest_type q \<noteq> ''boolean'' \<and> questMax q = 5 \<and> (0::int) \<le> 5)"
    by (simp add: overnight_def questCatalog_def DAILY_QUESTS_TEMPLATE_def PITCH_QUEST_def
        questMax_def)
  have fresh: "fmlookup (dailies overnight) (String_nat 1704240000000) = None"
    by (simp add: overnight_def fmlookup_of_list String_nat.simps digit_char_def)
  from operations_preserve_invariant [OF inv, where questId = "''leetcode''" and type = "''counter''" and max' = 5
      and target' = 10 and now = 1704240000000] call fresh inv
  show ?thesis by simp
qed

text \<open>
  C7 as stated fails: the card of a custom counter quest with maximum -3 calls
  \<^verbatim>\<open>updateDailyProgress\<close> with that maximum; the stored progress is 0, outside the empty range
  from 0 to -3.
\<close>

theorem negative_quest_max_breaks_invariant:
  "invariant negativeMax \<and>
   \<not> invariant (fst (updateDailyProgress \<lparr>getFullYear = 2024, getMonth = 0, getDate = 3\<rparr>
       ''1704240000000'' (JNum 1) 20 ''counter'' (- 3) negativeMax))"
proof -
  obtain np gain inc where d:
    "progressDelta (lookupOr0 (dailies negativeMax) ''1704240000000'') (JNum 1) 20 ''counter'' (- 3) =
      (np, gain, inc)"
    by (metis prod_cases3)
  have np: "np = 0"
    using d by (simp add: progressDelta_def Let_def negativeMax_def getDefaultState_def lookupOr0_def)
  note f = updateDailyProgress_fields [OF d]
  have cq: "customQuests negativeMax =
     [\<lparr>quest_id = ''1704240000000'', quest_title = ''Stretch'', quest_type = ''counter'',
       quest_max = Some (- 3), xpPer = 20, icon = ''star'', desc = ''Custom quest'',
       custom = True\<rparr>]"
    by (simp add: negativeMax_def)
  have "invariant negativeMax"
    by (simp add: invariant_def negativeMax_def getDefaultState_def questCatalog_def
        DAILY_QUESTS_TEMPLATE_def PITCH_QUEST_def)
  moreover have "\<not> invariant (fst (updateDailyProgress \<lparr>getFullYear = 2024, getMonth = 0, getDate = 3\<rparr>
       ''1704240000000'' (JNum 1) 20 ''counter'' (- 3) negativeMax))"
    by (simp add: invariant_def f np questCatalog_def cq questMax_def)
  ultimately show ?thesis by simp
qed

text \<open>
  C8. Achievement evaluation leaves every field of the state but \<^verbatim>\<open>unlockedAchievements\<close> as
  it is and appends to that list, after the identifiers already there, exactly the
  identifiers of the achievements whose predicate holds of the state and that are not yet
  in the list, in the order of the achievement list, scheduling one pop-up for each.
  Evaluating the resulting state again changes nothing and schedules nothing.
\<close>

theorem checkAchievements_appends_in_order:
  "checkAchievements s =
     (s\<lparr>unlockedAchievements := unlockedAchievements s @ map ach_id (newlyUnlocked s)\<rparr>,
      map (\<lambda>a. (500, AchievementNotification (ach_name a))) (newlyUnlocked s)) \<and>
   checkAchievements (fst (checkAchievements s)) = (fst (checkAchievements s), [])"
proof
  show "checkAchievements s =
     (s\<lparr>unlockedAchievements := unlockedAchievements s @ map ach_id (newlyUnlocked s)\<rparr>,
      map (\<lambda>a. (500, AchievementNotification (ach_name a))) (newlyUnlocked s))"
    by (rule checkAchievements_eq)
  show "checkAchievements (fst (checkAchievements s)) = (fst (checkAchievements s), [])"
    by (simp add: checkAchievements_eq [of s] newlyUnlocked_after
        checkAchievements_eq [of "s\<lparr>unlockedAchievements := _\<rparr>"])
qed

text \<open>
  C9. For every \<open>xp \<ge> 0\<close> the level is \<open>floor (sqrt (xp / 100)) + 1\<close>, it is at least 1, it does
  not decrease when xp grows, and the level at 0 xp is 1.
\<close>

theorem calculateLevel_floor_and_monotone:
  "0 \<le> x \<Longrightarrow> x \<le> y \<Longrightarrow>
   calculateLevel x = Some (\<lfloor>sqrt (real_of_int x / real_of_int BASE_XP)\<rfloor> + 1) \<and>
   (\<exists>l l'. calculateLevel x = Some l \<and> calculateLevel y = Some l' \<and> 1 \<le> l \<and> l \<le> l') \<and>
   calculateLevel 0 = Some 1"
proof (intro conjI)
  assume xy: "0 \<le> x" "x \<le> y"
  show "calculateLevel x = Some (\<lfloor>sqrt (real_of_int x / real_of_int BASE_XP)\<rfloor> + 1)"
    using xy(1) floor_sqrt_real [of x BASE_XP] by (simp add: calculateLevel_def BASE_XP_def)
  have "nat (x div BASE_XP) \<le> nat (y div BASE_XP)"
    using xy by (simp add: BASE_XP_def zdiv_mono1)
  then have "floor_sqrt (nat (x div BASE_XP)) \<le> floor_sqrt (nat (y div BASE_XP))"
    by (rule floor_sqrt_mono)
  then show "\<exists>l l'. calculateLevel x = Some l \<and> calculateLevel y = Some l' \<and> 1 \<le> l \<and> l \<le> l'"
    using xy by (simp add: calculateLevel_def)
  show "calculateLevel 0 = Some 1"
    by (simp add: calculateLevel_def)
qed

theorem calculateLevel_floor_and_monotone_witness:
  "(0::int) \<le> 1599 \<and> (1599::int) \<le> 1600 \<and>
   (\<exists>l l'. calculateLevel 1599 = Some l \<and> calculateLevel 1600 = Some l' \<and> 1 \<le> l \<and> l \<le> l')"
proof -
  have h: "(0::int) \<le> 1599" "(1599::int) \<le> 1600" by simp_all
  from calculateLevel_floor_and_monotone [OF h] show ?thesis using h by blast
qed



end
